theory Spec2Isabelle
  imports Complex_Main
begin

section \<open>Values: Python errors, float64, Python scalars\<close>

text \<open>
  The module \<^verbatim>\<open>nems/metrics/corrcoef.py\<close> computes correlation scores on numpy
  arrays of float64 that may hold NaN or infinities as placeholders for missing samples.

  A float64 is either a finite value, an infinity or NaN. A finite value is modelled by
  the real number it denotes: the special values and every branch taken on them are
  exact, while rounding, overflow and the sign of zero are left out.
\<close>

datatype pyerr =
    ValueError string
  | IndexError
  | KeyError string
  | ZeroDivisionError
  | UnboundLocalError string

datatype f64 = Fin real | PInf | NInf | NaN

fun isfinite :: "f64 \<Rightarrow> bool" where
  "isfinite (Fin _) = True"
| "isfinite _ = False"

fun fneg :: "f64 \<Rightarrow> f64" where
  "fneg (Fin a) = Fin (- a)"
| "fneg PInf = NInf"
| "fneg NInf = PInf"
| "fneg NaN = NaN"

fun fadd :: "f64 \<Rightarrow> f64 \<Rightarrow> f64" where
  "fadd (Fin a) (Fin b) = Fin (a + b)"
| "fadd NaN _ = NaN"
| "fadd _ NaN = NaN"
| "fadd PInf NInf = NaN"
| "fadd NInf PInf = NaN"
| "fadd PInf _ = PInf"
| "fadd _ PInf = PInf"
| "fadd NInf _ = NInf"
| "fadd _ NInf = NInf"

definition fsub :: "f64 \<Rightarrow> f64 \<Rightarrow> f64" where
  "fsub a b = fadd a (fneg b)"

text \<open>The sign of an infinite product or quotient: \<open>True\<close> is positive.\<close>

definition inf_of :: "bool \<Rightarrow> f64" where
  "inf_of pos = (if pos then PInf else NInf)"

fun fmul :: "f64 \<Rightarrow> f64 \<Rightarrow> f64" where
  "fmul (Fin a) (Fin b) = Fin (a * b)"
| "fmul NaN _ = NaN"
| "fmul _ NaN = NaN"
| "fmul (Fin a) PInf = (if a = 0 then NaN else inf_of (0 < a))"
| "fmul (Fin a) NInf = (if a = 0 then NaN else inf_of (a < 0))"
| "fmul PInf (Fin b) = (if b = 0 then NaN else inf_of (0 < b))"
| "fmul NInf (Fin b) = (if b = 0 then NaN else inf_of (b < 0))"
| "fmul PInf PInf = PInf"
| "fmul PInf NInf = NInf"
| "fmul NInf PInf = NInf"
| "fmul NInf NInf = PInf"

text \<open>
  numpy divides by zero without raising: a finite non-zero value over zero is an
  infinity, zero over zero is NaN (a warning is printed, no exception is thrown).
\<close>

fun fdiv :: "f64 \<Rightarrow> f64 \<Rightarrow> f64" where
  "fdiv (Fin a) (Fin b) =
     (if b = 0 then (if a = 0 then NaN else inf_of (0 < a)) else Fin (a / b))"
| "fdiv NaN _ = NaN"
| "fdiv _ NaN = NaN"
| "fdiv (Fin a) PInf = Fin 0"
| "fdiv (Fin a) NInf = Fin 0"
| "fdiv PInf (Fin b) = inf_of (0 \<le> b)"
| "fdiv NInf (Fin b) = inf_of (b < 0)"
| "fdiv PInf PInf = NaN"
| "fdiv PInf NInf = NaN"
| "fdiv NInf PInf = NaN"
| "fdiv NInf NInf = NaN"

fun fsqrt :: "f64 \<Rightarrow> f64" where
  "fsqrt (Fin a) = (if a < 0 then NaN else Fin (sqrt a))"
| "fsqrt PInf = PInf"
| "fsqrt _ = NaN"

text \<open>Comparisons with NaN are false.\<close>

fun flt :: "f64 \<Rightarrow> f64 \<Rightarrow> bool" where
  "flt (Fin a) (Fin b) = (a < b)"
| "flt NaN _ = False"
| "flt _ NaN = False"
| "flt NInf NInf = False"
| "flt NInf _ = True"
| "flt PInf _ = False"
| "flt _ PInf = True"
| "flt _ NInf = False"

definition fle :: "f64 \<Rightarrow> f64 \<Rightarrow> bool" where
  "fle a b = (flt a b \<or> (a = b \<and> a \<noteq> NaN))"

definition fsum :: "f64 list \<Rightarrow> f64" where
  "fsum xs = foldl fadd (Fin 0) xs"

text \<open>\<^verbatim>\<open>np.mean\<close> of a one-dimensional array; the mean of an empty array is NaN.\<close>

definition np_mean :: "f64 list \<Rightarrow> f64" where
  "np_mean xs = fdiv (fsum xs) (Fin (real (length xs)))"

text \<open>\<^verbatim>\<open>np.clip(c, -1, 1)\<close> on one entry; NaN stays NaN.\<close>

definition clip1 :: "f64 \<Rightarrow> f64" where
  "clip1 c = (if flt c (Fin (- 1)) then Fin (- 1) else if flt (Fin 1) c then Fin 1 else c)"

text \<open>
  A Python scalar as the functions return it: the literal \<^verbatim>\<open>0\<close> is a Python int, a
  computed score is a numpy float64. The literal \<^verbatim>\<open>0.05\<close> is a Python float, the same
  double as a float64; the module never divides by it.
\<close>

datatype pyval = PyInt int | Float f64

fun to_f64 :: "pyval \<Rightarrow> f64" where
  "to_f64 (PyInt i) = Fin (real_of_int i)"
| "to_f64 (Float x) = x"

text \<open>An exception ends the computation: the first error is the result.\<close>

definition and_then :: "'e + 'a \<Rightarrow> ('a \<Rightarrow> 'e + 'b) \<Rightarrow> 'e + 'b" where
  "and_then m f = (case m of Inl e \<Rightarrow> Inl e | Inr v \<Rightarrow> f v)"

primrec mapM :: "('a \<Rightarrow> 'e + 'b) \<Rightarrow> 'a list \<Rightarrow> 'e + 'b list" where
  "mapM f [] = Inr []"
| "mapM f (x # xs) = and_then (f x) (\<lambda>y. and_then (mapM f xs) (\<lambda>ys. Inr (y # ys)))"

section \<open>The library routine \<^verbatim>\<open>np.corrcoef\<close>\<close>

text \<open>
  \<^verbatim>\<open>np.corrcoef(x, y)[0, 1]\<close> for one-dimensional \<open>x\<close> and \<open>y\<close>, following numpy's
  own steps: the rows are centred on their means, the covariance matrix is the matrix of
  dot products scaled by \<open>1 / fact\<close> with \<open>fact = n - 1\<close> (replaced by \<open>0.0\<close> when it is
  not positive), and the entry is divided by the standard deviation of its row, then by
  that of its column, and clipped to \<open>[-1, 1]\<close>. Stacking rows of different lengths
  raises ValueError.
\<close>

definition centred :: "f64 list \<Rightarrow> f64 list" where
  "centred xs = map (\<lambda>v. fsub v (np_mean xs)) xs"

definition dot :: "f64 list \<Rightarrow> f64 list \<Rightarrow> f64" where
  "dot xs ys = fsum (map2 fmul xs ys)"

definition cov_fact :: "nat \<Rightarrow> f64" where
  "cov_fact n = fdiv (Fin 1) (Fin (if int n - 1 \<le> 0 then 0 else real n - 1))"

definition np_cov :: "f64 list \<Rightarrow> f64 list \<Rightarrow> f64" where
  "np_cov xs ys = fmul (dot (centred xs) (centred ys)) (cov_fact (length xs))"

definition pearson01 :: "f64 list \<Rightarrow> f64 list \<Rightarrow> f64" where
  "pearson01 xs ys =
     clip1 (fdiv (fdiv (np_cov xs ys) (fsqrt (np_cov xs xs))) (fsqrt (np_cov ys ys)))"

definition np_corrcoef01 :: "f64 list \<Rightarrow> f64 list \<Rightarrow> pyerr + f64" where
  "np_corrcoef01 xs ys =
     (if length xs \<noteq> length ys
      then Inl (ValueError ''all the input array dimensions must match'')
      else Inr (pearson01 xs ys))"

section \<open>Arrays\<close>

text \<open>
  A numpy array is its shape and its entries. The entries are a function of the index,
  read only inside the shape; an axis may have length zero while the others keep theirs.
\<close>

record 'a ndarray2 =
  nrows :: nat
  ncols :: nat
  item2 :: "nat \<Rightarrow> nat \<Rightarrow> 'a"

record ndarray3 =
  shape0 :: nat
  shape1 :: nat
  shape2 :: nat
  item3 :: "nat \<Rightarrow> nat \<Rightarrow> nat \<Rightarrow> f64"

text \<open>Broadcasting of one axis: equal lengths, or one of them is 1.\<close>

definition broadcast_dim :: "nat \<Rightarrow> nat \<Rightarrow> nat option" where
  "broadcast_dim a b =
     (if a = b then Some a else if a = 1 then Some b else if b = 1 then Some a else None)"

definition bc_index :: "nat \<Rightarrow> nat \<Rightarrow> nat" where
  "bc_index len i = (if len = 1 then 0 else i)"

definition isfinite2 :: "f64 ndarray2 \<Rightarrow> bool ndarray2" where
  "isfinite2 A = \<lparr>nrows = nrows A, ncols = ncols A, item2 = (\<lambda>i j. isfinite (item2 A i j))\<rparr>"

definition logical_and2 :: "bool ndarray2 \<Rightarrow> bool ndarray2 \<Rightarrow> pyerr + bool ndarray2" where
  "logical_and2 A B =
     (case (broadcast_dim (nrows A) (nrows B), broadcast_dim (ncols A) (ncols B)) of
        (Some r, Some c) \<Rightarrow>
          Inr \<lparr>nrows = r, ncols = c,
               item2 = (\<lambda>i j. item2 A (bc_index (nrows A) i) (bc_index (ncols A) j)
                            \<and> item2 B (bc_index (nrows B) i) (bc_index (ncols B) j))\<rparr>
      | _ \<Rightarrow> Inl (ValueError ''operands could not be broadcast together''))"

text \<open>The entries in row-major order, as numpy flattens.\<close>

definition flat2 :: "'a ndarray2 \<Rightarrow> 'a list" where
  "flat2 A = concat (map (\<lambda>i. map (item2 A i) [0..<ncols A]) [0..<nrows A])"

definition count_true2 :: "bool ndarray2 \<Rightarrow> nat" where
  "count_true2 M = length (filter id (flat2 M))"

text \<open>
  \<^verbatim>\<open>A[M]\<close> for a boolean mask \<open>M\<close>: the selected entries in row-major order; a mask of
  another shape raises IndexError.
\<close>

definition bool_index2 :: "'a ndarray2 \<Rightarrow> bool ndarray2 \<Rightarrow> pyerr + 'a list" where
  "bool_index2 A M =
     (if nrows A = nrows M \<and> ncols A = ncols M
      then Inr (map fst (filter snd (zip (flat2 A) (flat2 M))))
      else Inl IndexError)"

section \<open>\<^verbatim>\<open>corrcoef\<close>\<close>

text \<open>
  A recording maps signal names to signals; \<^verbatim>\<open>result[name]\<close> raises KeyError on a
  missing name. Of a signal the function reads \<^verbatim>\<open>as_continuous()\<close>, a channels by time
  array.
\<close>

record signal =
  as_continuous :: "f64 ndarray2"

type_synonym recording = "string \<Rightarrow> signal option"

definition multi_channel :: pyerr where
  "multi_channel = ValueError ''multi-channel signals not supported yet.''"

definition corrcoef :: "recording \<Rightarrow> string \<Rightarrow> string \<Rightarrow> pyerr + pyval" where
  "corrcoef result pred_name resp_name =
     (case result pred_name of None \<Rightarrow> Inl (KeyError pred_name) | Some ps \<Rightarrow>
     (case result resp_name of None \<Rightarrow> Inl (KeyError resp_name) | Some rs \<Rightarrow>
      let pred = as_continuous ps; resp = as_continuous rs in
      if nrows pred > 1 then Inl multi_channel
      else
        and_then (logical_and2 (isfinite2 pred) (isfinite2 resp)) (\<lambda>ff.
        if count_true2 ff = 0 then Inr (PyInt 0)
        else
          and_then (bool_index2 pred ff) (\<lambda>p.
          and_then (bool_index2 resp ff) (\<lambda>r.
          and_then (np_corrcoef01 p r) (\<lambda>cc. Inr (Float cc)))))))"

section \<open>The random source\<close>

text \<open>
  The process-wide generator is an explicit state: the stream of its raw 53-bit draws.
  \<^verbatim>\<open>np.random.rand(n)\<close> turns the next \<open>n\<close> draws into doubles of \<open>[0, 1)\<close> and
  advances the stream.
\<close>

type_synonym rng = "nat \<Rightarrow> nat"

definition uniform01 :: "nat \<Rightarrow> real" where
  "uniform01 k = real (k mod 2 ^ 53) / 2 ^ 53"

definition advance :: "nat \<Rightarrow> rng \<Rightarrow> rng" where
  "advance n g = (\<lambda>i. g (i + n))"

definition rand :: "nat \<Rightarrow> rng \<Rightarrow> real list \<times> rng" where
  "rand n g = (map (\<lambda>i. uniform01 (g i)) [0..<n], advance n g)"

text \<open>
  \<^verbatim>\<open>(np.random.rand(n) * m).astype(int)\<close>: each product is truncated; it is not
  negative, so truncation is the floor.
\<close>

definition rand_indices :: "nat \<Rightarrow> nat \<Rightarrow> rng \<Rightarrow> nat list \<times> rng" where
  "rand_indices n m g =
     (case rand n g of (u, g') \<Rightarrow> (map (\<lambda>x. nat \<lfloor>x * real m\<rfloor>) u, g'))"

text \<open>\<^verbatim>\<open>A[idx]\<close> for an array of indices: an index outside the array raises IndexError.\<close>

definition take_idx :: "'a list \<Rightarrow> nat list \<Rightarrow> pyerr + 'a list" where
  "take_idx A idx =
     (if list_all (\<lambda>i. i < length A) idx then Inr (map (\<lambda>i. A ! i) idx) else Inl IndexError)"

text \<open>
  \<^verbatim>\<open>np.argsort\<close>: the indices that sort the array. numpy leaves the order of equal keys
  open; the model keeps them in their original order.
\<close>

definition np_argsort :: "real list \<Rightarrow> nat list" where
  "np_argsort xs = sort_key (\<lambda>i. xs ! i) [0..<length xs]"

section \<open>\<^verbatim>\<open>r_floor\<close>\<close>

text \<open>
  The loop \<^verbatim>\<open>for rr in range(0, len(rf))\<close>: each pass draws two index arrays, correlates
  the two resampled arrays and stores the result in \<^verbatim>\<open>rf[rr]\<close>. The state is the array
  \<open>rf\<close> (a column of 1000 zeros at the start) and the random source.
\<close>

fun shuffle_loop ::
  "f64 list \<Rightarrow> f64 list \<Rightarrow> nat \<Rightarrow> nat list \<Rightarrow> f64 list \<times> rng \<Rightarrow> pyerr + f64 list \<times> rng"
where
  "shuffle_loop X1 X2 n [] s = Inr s"
| "shuffle_loop X1 X2 n (rr # rrs) (rf, g) =
     (case rand_indices n (length X1) g of (n1, g1) \<Rightarrow>
      case rand_indices n (length X2) g1 of (n2, g2) \<Rightarrow>
        and_then (take_idx X1 n1) (\<lambda>a.
        and_then (take_idx X2 n2) (\<lambda>b.
        and_then (np_corrcoef01 a b) (\<lambda>c.
        shuffle_loop X1 X2 n rrs (rf[rr := c], g2)))))"

fun fin_val :: "f64 \<Rightarrow> real" where
  "fin_val (Fin a) = a"
| "fin_val _ = 0"

text \<open>\<^verbatim>\<open>np.sort(rf[np.isfinite(rf)], 0)\<close>: the finite entries in ascending order.\<close>

definition sort_finite :: "f64 list \<Rightarrow> f64 list" where
  "sort_finite rf = sort_key fin_val (filter isfinite rf)"

text \<open>
  \<^verbatim>\<open>np.int(len(rf) * 0.95)\<close>, where \<^verbatim>\<open>np.int\<close> is Python's \<open>int\<close>. The product is a
  double; for every length up to 1000 it truncates to the floor of the exact product.
\<close>

definition idx95 :: "nat \<Rightarrow> nat" where
  "idx95 len = nat \<lfloor>real len * (95 / 100)\<rfloor>"

definition r_floor :: "recording \<Rightarrow> string \<Rightarrow> string \<Rightarrow> rng \<Rightarrow> pyerr + pyval \<times> rng" where
  "r_floor result pred_name resp_name g =
     (case result pred_name of None \<Rightarrow> Inl (KeyError pred_name) | Some ps \<Rightarrow>
     (case result resp_name of None \<Rightarrow> Inl (KeyError resp_name) | Some rs \<Rightarrow>
      let X1 = as_continuous ps; X2 = as_continuous rs in
      if nrows X1 > 1 then Inl multi_channel
      else
        and_then (logical_and2 (isfinite2 X1) (isfinite2 X2)) (\<lambda>ff.
        and_then (bool_index2 X1 ff) (\<lambda>X1.
        and_then (bool_index2 X2 ff) (\<lambda>X2.
        let n = (if length X1 > 500 then 500 else length X1);
            rf = replicate 1000 (Fin 0)
        in
        and_then (shuffle_loop X1 X2 n [0..<length rf] (rf, g)) (\<lambda>(rf, g').
        let rf = sort_finite rf in
        if length rf \<noteq> 0 then Inr (Float (rf ! idx95 (length rf)), g')
        else Inr (PyInt 0, g')))))))"

section \<open>\<^verbatim>\<open>_r_single\<close>\<close>

text \<open>
  \<^verbatim>\<open>X[i, j, :]\<close> of a repeats by channels by time raster; an index outside the first two
  axes raises IndexError.
\<close>

definition row3 :: "ndarray3 \<Rightarrow> nat \<Rightarrow> nat \<Rightarrow> pyerr + f64 list" where
  "row3 X i j =
     (if i < shape0 X \<and> j < shape1 X then Inr (map (item3 X i j) [0..<shape2 X])
      else Inl IndexError)"

definition logical_and1 :: "bool list \<Rightarrow> bool list \<Rightarrow> pyerr + bool list" where
  "logical_and1 a b =
     (case broadcast_dim (length a) (length b) of
        Some len \<Rightarrow>
          Inr (map (\<lambda>i. a ! bc_index (length a) i \<and> b ! bc_index (length b) i) [0..<len])
      | None \<Rightarrow> Inl (ValueError ''operands could not be broadcast together''))"

definition bool_index1 :: "'a list \<Rightarrow> bool list \<Rightarrow> pyerr + 'a list" where
  "bool_index1 A M =
     (if length A = length M then Inr (map fst (filter snd (zip A M))) else Inl IndexError)"

text \<open>
  The three lines \<^verbatim>\<open>ff = np.isfinite(X1) & np.isfinite(X2); X1 = X1[ff]; X2 = X2[ff]\<close>
  that every loop of the module repeats.
\<close>

definition masked_pair :: "f64 list \<Rightarrow> f64 list \<Rightarrow> pyerr + f64 list \<times> f64 list" where
  "masked_pair X1 X2 =
     and_then (logical_and1 (map isfinite X1) (map isfinite X2)) (\<lambda>ff.
     and_then (bool_index1 X1 ff) (\<lambda>X1'.
     and_then (bool_index1 X2 ff) (\<lambda>X2'. Inr (X1', X2'))))"

text \<open>The nested loops that list every pair \<open>p1 < p2\<close> of repeat indices.\<close>

definition pairs_of :: "nat \<Rightarrow> (nat \<times> nat) list" where
  "pairs_of repcount =
     concat (map (\<lambda>p1. map (\<lambda>p2. (p1, p2)) [p1 + 1..<repcount]) [0..<repcount])"

definition two_repeats :: pyerr where
  "two_repeats = ValueError ''2 repeats condition not supported yet.''"

text \<open>One pass of \<^verbatim>\<open>for nn in range(N)\<close>: the correlation stored in \<^verbatim>\<open>rac[nn]\<close>.\<close>

definition pair_corr :: "ndarray3 \<Rightarrow> (nat \<times> nat) list \<Rightarrow> nat list \<Rightarrow> nat \<Rightarrow> pyerr + f64" where
  "pair_corr X pairs sidx nn =
     and_then (row3 X (fst (pairs ! (sidx ! nn))) 0) (\<lambda>X1.
     and_then (row3 X (snd (pairs ! (sidx ! nn))) 0) (\<lambda>X2.
     and_then (masked_pair X1 X2) (\<lambda>(X1, X2).
     np_corrcoef01 X1 X2)))"

text \<open>
  \<^verbatim>\<open>scipy.special.comb(repcount, 2)\<close> is the binomial coefficient. The cap \<open>N\<close> is a
  Python int of any sign; \<^verbatim>\<open>np.zeros(N)\<close> raises ValueError on a negative \<open>N\<close>, before
  the random source is read.
\<close>

definition r_single :: "ndarray3 \<Rightarrow> int \<Rightarrow> rng \<Rightarrow> pyerr + pyval \<times> rng" where
  "r_single X N g =
     (if shape1 X > 1 then Inl multi_channel
      else
        let repcount = shape0 X in
        if repcount \<le> 1 then Inr (PyInt 0, g)
        else
          let paircount = repcount choose 2;
              pairs = pairs_of repcount;
              N = (if int paircount < N then int paircount else N)
          in
          if N = 1 then Inl two_repeats
          else if N < 0 then Inl (ValueError ''negative dimensions are not allowed'')
          else
            case rand paircount g of (u, g') \<Rightarrow>
              let sidx = np_argsort u in
              and_then (mapM (pair_corr X pairs sidx) [0..<nat N]) (\<lambda>rac.
              let rac = np_mean rac in
              Inr (Float (if flt rac (Fin (5 / 100)) then Fin (5 / 100) else rac), g')))"

section \<open>\<^verbatim>\<open>r_ceiling\<close>\<close>

text \<open>
  The variables the loop over the epochs updates: the weighted sum \<^verbatim>\<open>rnorm_c\<close>, the
  sample total \<^verbatim>\<open>n\<close>, and \<^verbatim>\<open>X1\<close>, which the inner loop assigns and the line after
  it reads (unbound until the inner loop has run once).
\<close>

record ceiling_vars =
  rnorm_c :: pyval
  n_total :: int
  X1_var :: "f64 list option"

definition gt_zero :: "pyval \<Rightarrow> bool" where
  "gt_zero v = (case v of PyInt i \<Rightarrow> 0 < i | Float x \<Rightarrow> flt (Fin 0) x)"

definition flat3 :: "ndarray3 \<Rightarrow> f64 list" where
  "flat3 d =
     concat (map (\<lambda>i. concat (map (\<lambda>j. map (item3 d i j) [0..<shape2 d]) [0..<shape1 d]))
       [0..<shape0 d])"

text \<open>\<^verbatim>\<open>np.sum(np.isfinite(d))\<close>.\<close>

definition count_finite3 :: "ndarray3 \<Rightarrow> nat" where
  "count_finite3 d = length (filter isfinite (flat3 d))"

text \<open>
  The loop \<^verbatim>\<open>for nn in range(repcount)\<close>. The state is the list of the correlations
  stored in \<^verbatim>\<open>rs\<close> so far and the variable \<^verbatim>\<open>X1\<close>.
\<close>

fun repeat_loop ::
  "ndarray3 \<Rightarrow> ndarray3 \<Rightarrow> nat list \<Rightarrow> f64 list \<times> f64 list option
     \<Rightarrow> pyerr + f64 list \<times> f64 list option"
where
  "repeat_loop X d [] s = Inr s"
| "repeat_loop X d (nn # nns) (rs, X1v) =
     and_then (row3 X nn 0) (\<lambda>X1.
     and_then (row3 d 0 0) (\<lambda>X2.
     and_then (masked_pair X1 X2) (\<lambda>(X1, X2).
     and_then (np_corrcoef01 X1 X2) (\<lambda>c.
     repeat_loop X d nns (rs @ [c], Some X1)))))"

text \<open>
  Python's \<^verbatim>\<open>rnorm_c / n\<close>: two ints raise ZeroDivisionError on a zero divisor; a
  float64 numerator divides as numpy does, without raising.
\<close>

definition py_truediv :: "pyval \<Rightarrow> int \<Rightarrow> pyerr + pyval" where
  "py_truediv a b =
     (case a of
        PyInt i \<Rightarrow>
          if b = 0 then Inl ZeroDivisionError
          else Inr (Float (Fin (real_of_int i / real_of_int b)))
      | Float x \<Rightarrow> Inr (Float (fdiv x (Fin (real_of_int b)))))"

text \<open>
  The body of \<^verbatim>\<open>for k, d in folded_pred.items()\<close>. The folded prediction and the
  raster of each epoch come from \<^verbatim>\<open>nems.epoch\<close> and the signal class, which are not
  part of this module: \<open>extract_epoch k\<close> stands for
  \<^verbatim>\<open>fullrec[resp_name].rasterize().extract_epoch(k)\<close>.
\<close>

definition epoch_body ::
  "(string \<Rightarrow> ndarray3) \<Rightarrow> int \<Rightarrow> string \<times> ndarray3 \<Rightarrow> ceiling_vars \<times> rng
     \<Rightarrow> pyerr + ceiling_vars \<times> rng"
where
  "epoch_body extract_epoch N kd s =
     (case kd of (k, d) \<Rightarrow> case s of (vars, g) \<Rightarrow>
      if count_finite3 d > 0 then
        let X = extract_epoch k in
        and_then (r_single X N g) (\<lambda>(rac, g').
        if gt_zero rac then
          let repcount = shape0 X in
          and_then (repeat_loop X d [0..<repcount] ([], X1_var vars)) (\<lambda>(rs, X1v).
          let rs = np_mean rs in
          case X1v of
            None \<Rightarrow> Inl (UnboundLocalError ''X1'')
          | Some X1 \<Rightarrow>
              Inr (\<lparr>rnorm_c = Float (fadd (to_f64 (rnorm_c vars))
                                  (fmul (fdiv rs (fsqrt (to_f64 rac))) (Fin (real (length X1))))),
                    n_total = n_total vars + int (length X1),
                    X1_var = X1v\<rparr>, g'))
        else Inr (vars, g'))
      else Inr (vars, g))"

fun epoch_loop ::
  "(string \<Rightarrow> ndarray3) \<Rightarrow> int \<Rightarrow> (string \<times> ndarray3) list \<Rightarrow> ceiling_vars \<times> rng
     \<Rightarrow> pyerr + ceiling_vars \<times> rng"
where
  "epoch_loop extract_epoch N [] s = Inr s"
| "epoch_loop extract_epoch N (kd # kds) s =
     and_then (epoch_body extract_epoch N kd s) (epoch_loop extract_epoch N kds)"

definition ceiling_init :: ceiling_vars where
  "ceiling_init = \<lparr>rnorm_c = PyInt 0, n_total = 0, X1_var = None\<rparr>"

text \<open>
  \<open>folded_pred\<close> is the list of the items of
  \<^verbatim>\<open>result[pred_name].extract_epochs(epochs_to_extract)\<close>, in the order the loop visits.
\<close>

definition r_ceiling ::
  "(string \<times> ndarray3) list \<Rightarrow> (string \<Rightarrow> ndarray3) \<Rightarrow> int \<Rightarrow> rng \<Rightarrow> pyerr + pyval \<times> rng"
where
  "r_ceiling folded_pred extract_epoch N g =
     and_then (epoch_loop extract_epoch N folded_pred (ceiling_init, g)) (\<lambda>(vars, g').
     and_then (py_truediv (rnorm_c vars) (n_total vars)) (\<lambda>rnorm. Inr (rnorm, g')))"

section \<open>Rounding to float64\<close>

text \<open>
  The double nearest to a real number, ties going to the even significand: the number is
  scaled so that its integer part has 53 bits, rounded to an integer and scaled back.
  The exponent range is taken as unbounded: overflow to an infinity and the subnormal
  numbers are left out.
\<close>

definition rne :: "real \<Rightarrow> int" where
  "rne y = (if frac y = 1 / 2 \<and> even \<lfloor>y\<rfloor> then \<lfloor>y\<rfloor> else round y)"

definition round64 :: "real \<Rightarrow> real" where
  "round64 x =
     (if x = 0 then 0
      else let e = \<lfloor>log 2 \<bar>x\<bar>\<rfloor> in of_int (rne (x * 2 powi (52 - e))) * 2 powi (e - 52))"

text \<open>
  \<^verbatim>\<open>np.corrcoef\<close> and \<^verbatim>\<open>corrcoef\<close> once more, with the result of every arithmetic
  operation passed through a rounding function \<open>rnd\<close>: the steps and their order are
  those of \<open>np_corrcoef01\<close> and \<open>corrcoef\<close> above. In particular the entry of the
  covariance matrix is divided by the standard deviation of its row and the quotient by
  that of its column, \<^verbatim>\<open>c /= stddev[:, None]; c /= stddev[None, :]\<close>, each division
  rounded. The sums are taken from left to right. With the identity for \<open>rnd\<close> the
  arithmetic is exact and the functions are the ones above; with \<open>round64\<close> it is the
  arithmetic of float64. The special values are not rounded.
\<close>

definition rounded :: "(real \<Rightarrow> real) \<Rightarrow> f64 \<Rightarrow> f64" where
  "rounded rnd x = (case x of Fin a \<Rightarrow> Fin (rnd a) | _ \<Rightarrow> x)"

definition fadd_rnd :: "(real \<Rightarrow> real) \<Rightarrow> f64 \<Rightarrow> f64 \<Rightarrow> f64" where
  "fadd_rnd rnd a b = rounded rnd (fadd a b)"

definition fsub_rnd :: "(real \<Rightarrow> real) \<Rightarrow> f64 \<Rightarrow> f64 \<Rightarrow> f64" where
  "fsub_rnd rnd a b = rounded rnd (fsub a b)"

definition fmul_rnd :: "(real \<Rightarrow> real) \<Rightarrow> f64 \<Rightarrow> f64 \<Rightarrow> f64" where
  "fmul_rnd rnd a b = rounded rnd (fmul a b)"

definition fdiv_rnd :: "(real \<Rightarrow> real) \<Rightarrow> f64 \<Rightarrow> f64 \<Rightarrow> f64" where
  "fdiv_rnd rnd a b = rounded rnd (fdiv a b)"

definition fsqrt_rnd :: "(real \<Rightarrow> real) \<Rightarrow> f64 \<Rightarrow> f64" where
  "fsqrt_rnd rnd a = rounded rnd (fsqrt a)"

definition fsum_rnd :: "(real \<Rightarrow> real) \<Rightarrow> f64 list \<Rightarrow> f64" where
  "fsum_rnd rnd xs = foldl (fadd_rnd rnd) (Fin 0) xs"

definition np_mean_rnd :: "(real \<Rightarrow> real) \<Rightarrow> f64 list \<Rightarrow> f64" where
  "np_mean_rnd rnd xs = fdiv_rnd rnd (fsum_rnd rnd xs) (Fin (real (length xs)))"

definition centred_rnd :: "(real \<Rightarrow> real) \<Rightarrow> f64 list \<Rightarrow> f64 list" where
  "centred_rnd rnd xs = map (\<lambda>v. fsub_rnd rnd v (np_mean_rnd rnd xs)) xs"

definition dot_rnd :: "(real \<Rightarrow> real) \<Rightarrow> f64 list \<Rightarrow> f64 list \<Rightarrow> f64" where
  "dot_rnd rnd xs ys = fsum_rnd rnd (map2 (fmul_rnd rnd) xs ys)"

definition cov_fact_rnd :: "(real \<Rightarrow> real) \<Rightarrow> nat \<Rightarrow> f64" where
  "cov_fact_rnd rnd n = fdiv_rnd rnd (Fin 1) (Fin (if int n - 1 \<le> 0 then 0 else real n - 1))"

definition np_cov_rnd :: "(real \<Rightarrow> real) \<Rightarrow> f64 list \<Rightarrow> f64 list \<Rightarrow> f64" where
  "np_cov_rnd rnd xs ys =
     fmul_rnd rnd (dot_rnd rnd (centred_rnd rnd xs) (centred_rnd rnd ys))
       (cov_fact_rnd rnd (length xs))"

definition pearson01_rnd :: "(real \<Rightarrow> real) \<Rightarrow> f64 list \<Rightarrow> f64 list \<Rightarrow> f64" where
  "pearson01_rnd rnd xs ys =
     clip1 (fdiv_rnd rnd
              (fdiv_rnd rnd (np_cov_rnd rnd xs ys) (fsqrt_rnd rnd (np_cov_rnd rnd xs xs)))
              (fsqrt_rnd rnd (np_cov_rnd rnd ys ys)))"

definition np_corrcoef01_rnd ::
  "(real \<Rightarrow> real) \<Rightarrow> f64 list \<Rightarrow> f64 list \<Rightarrow> pyerr + f64" where
  "np_corrcoef01_rnd rnd xs ys =
     (if length xs \<noteq> length ys
      then Inl (ValueError ''all the input array dimensions must match'')
      else Inr (pearson01_rnd rnd xs ys))"

definition corrcoef_rnd ::
  "(real \<Rightarrow> real) \<Rightarrow> recording \<Rightarrow> string \<Rightarrow> string \<Rightarrow> pyerr + pyval" where
  "corrcoef_rnd rnd result pred_name resp_name =
     (case result pred_name of None \<Rightarrow> Inl (KeyError pred_name) | Some ps \<Rightarrow>
     (case result resp_name of None \<Rightarrow> Inl (KeyError resp_name) | Some rs \<Rightarrow>
      let pred = as_continuous ps; resp = as_continuous rs in
      if nrows pred > 1 then Inl multi_channel
      else
        and_then (logical_and2 (isfinite2 pred) (isfinite2 resp)) (\<lambda>ff.
        if count_true2 ff = 0 then Inr (PyInt 0)
        else
          and_then (bool_index2 pred ff) (\<lambda>p.
          and_then (bool_index2 resp ff) (\<lambda>r.
          and_then (np_corrcoef01_rnd rnd p r) (\<lambda>cc. Inr (Float cc)))))))"

section \<open>Notions used in the statements\<close>

text \<open>
  The pairs of two arrays of equal length at the positions where both are finite, and
  the correlation of the two arrays restricted to these positions.
\<close>

definition jointly :: "f64 list \<Rightarrow> f64 list \<Rightarrow> (f64 \<times> f64) list" where
  "jointly X1 X2 = filter (\<lambda>(a, b). isfinite a \<and> isfinite b) (zip X1 X2)"

definition corr_masked :: "f64 list \<Rightarrow> f64 list \<Rightarrow> f64" where
  "corr_masked X1 X2 = pearson01 (map fst (jointly X1 X2)) (map snd (jointly X1 X2))"

text \<open>The time series of repeat \<open>i\<close> of a raster, \<^verbatim>\<open>X[i, 0, :]\<close>.\<close>

definition chan0 :: "ndarray3 \<Rightarrow> nat \<Rightarrow> f64 list" where
  "chan0 X i = map (item3 X i 0) [0..<shape2 X]"

text \<open>The floor of 0.05 that \<^verbatim>\<open>_r_single\<close> puts under its mean.\<close>

definition floor05 :: "f64 \<Rightarrow> f64" where
  "floor05 m = (if flt m (Fin (5 / 100)) then Fin (5 / 100) else m)"

text \<open>The number of pairs \<^verbatim>\<open>_r_single\<close> samples: the cap \<open>N\<close> reduced to the pair count.\<close>

definition effective_N :: "ndarray3 \<Rightarrow> int \<Rightarrow> int" where
  "effective_N X N = min N (int (shape0 X choose 2))"

text \<open>
  The pair list in the random order of \<^verbatim>\<open>sidx\<close>, and the correlations of the first
  \<open>effective_N\<close> pairs of it.
\<close>

definition shuffled_pairs :: "nat \<Rightarrow> rng \<Rightarrow> (nat \<times> nat) list" where
  "shuffled_pairs repcount g =
     map (\<lambda>i. pairs_of repcount ! i) (np_argsort (fst (rand (repcount choose 2) g)))"

definition sampled_corrs :: "ndarray3 \<Rightarrow> int \<Rightarrow> rng \<Rightarrow> f64 list" where
  "sampled_corrs X N g =
     map (\<lambda>(p1, p2). corr_masked (chan0 X p1) (chan0 X p2))
       (take (nat (effective_N X N)) (shuffled_pairs (shape0 X) g))"

text \<open>The samples of the single channel of a channels by time array.\<close>

definition samples :: "'a ndarray2 \<Rightarrow> 'a list" where
  "samples A = map (item2 A 0) [0..<ncols A]"

text \<open>
  For a raster \<open>X\<close> and the folded prediction \<open>d\<close> of an epoch: the mean over the
  repeats of the correlation of each repeat with the first occurrence of the prediction,
  \<^verbatim>\<open>d[0, 0, :]\<close>; the array left in \<^verbatim>\<open>X1\<close> by the last repeat; and the number of
  time samples at which the last repeat and the prediction are both finite.
\<close>

definition epoch_rs :: "ndarray3 \<Rightarrow> ndarray3 \<Rightarrow> f64" where
  "epoch_rs X d = np_mean (map (\<lambda>nn. corr_masked (chan0 X nn) (chan0 d 0)) [0..<shape0 X])"

definition last_valid :: "ndarray3 \<Rightarrow> ndarray3 \<Rightarrow> f64 list" where
  "last_valid X d = map fst (jointly (chan0 X (shape0 X - 1)) (chan0 d 0))"

definition sample_count :: "ndarray3 \<Rightarrow> ndarray3 \<Rightarrow> nat" where
  "sample_count X d =
     length (filter (\<lambda>t. isfinite (item3 X (shape0 X - 1) 0 t) \<and> isfinite (item3 d 0 0 t))
       [0..<shape2 d])"

text \<open>
  The run of \<^verbatim>\<open>r_ceiling\<close> over the epochs, as the specification words it. The
  epochs are visited in order with the random source of the run. An epoch whose folded
  prediction holds no finite sample is passed over; otherwise the reliability \<open>rac\<close> of
  its raster is taken, and an epoch whose reliability is not \<open>> 0\<close> is passed over as
  well. Every other epoch contributes the pair of its noise-corrected agreement
  \<open>rs / sqrt rac\<close> and its sample count. The run has no value (\<open>None\<close>) when the
  reliability raises or when a contributing raster and its prediction differ in their
  number of time samples.
\<close>

fun epoch_terms ::
  "(string \<Rightarrow> ndarray3) \<Rightarrow> int \<Rightarrow> (string \<times> ndarray3) list \<Rightarrow> rng
     \<Rightarrow> ((f64 \<times> nat) list \<times> rng) option"
where
  "epoch_terms ee N [] g = Some ([], g)"
| "epoch_terms ee N ((k, d) # kds) g =
     (if count_finite3 d = 0 then epoch_terms ee N kds g
      else
        case r_single (ee k) N g of
          Inl e \<Rightarrow> None
        | Inr (rac, g') \<Rightarrow>
            if \<not> gt_zero rac then epoch_terms ee N kds g'
            else if shape2 (ee k) \<noteq> shape2 d then None
            else
              map_option
                (\<lambda>(ts, g''). ((fdiv (epoch_rs (ee k) d) (fsqrt (to_f64 rac)),
                                sample_count (ee k) d) # ts, g''))
                (epoch_terms ee N kds g'))"

text \<open>
  The weighted sum of the contributions, added up in the order of the epochs from 0,
  and the total of their sample counts.
\<close>

definition weighted_sum :: "(f64 \<times> nat) list \<Rightarrow> f64" where
  "weighted_sum ts = fsum (map (\<lambda>(q, c). fmul q (Fin (real c))) ts)"

definition total_samples :: "(f64 \<times> nat) list \<Rightarrow> nat" where
  "total_samples ts = sum_list (map snd ts)"

text \<open>
  For \<^verbatim>\<open>r_floor\<close>: \<open>n\<close> draws with replacement from an array; the correlation of
  trial \<open>rr\<close>, which resamples the two arrays independently with the draws
  \<open>2 * n * rr\<close> onwards; and the value reported from the results of the trials: the
  finite ones in ascending order, read at the index \<open>floor (0.95 * count)\<close>, or 0 when
  none is finite.
\<close>

definition resample :: "f64 list \<Rightarrow> nat \<Rightarrow> rng \<Rightarrow> f64 list" where
  "resample V n g = map (\<lambda>i. V ! nat \<lfloor>uniform01 (g i) * real (length V)\<rfloor>) [0..<n]"

definition shuffle_trial :: "f64 list \<Rightarrow> f64 list \<Rightarrow> nat \<Rightarrow> rng \<Rightarrow> nat \<Rightarrow> f64" where
  "shuffle_trial V1 V2 n g rr =
     pearson01 (resample V1 n (advance (2 * n * rr) g))
               (resample V2 n (advance (2 * n * rr + n) g))"

definition percentile95 :: "f64 list \<Rightarrow> pyval" where
  "percentile95 results =
     (let fin = sort (map fin_val (filter isfinite results)) in
      if fin = [] then PyInt 0
      else Float (Fin (fin ! nat \<lfloor>95 / 100 * real (length fin)\<rfloor>)))"

text \<open>
  The floor estimate as the specification words it, on the samples of the prediction and
  of the response: drop the positions that are not jointly finite, take
  \<open>n = min 500 (len valid)\<close>, run 1000 trials.
\<close>

definition r_floor_spec :: "f64 list \<Rightarrow> f64 list \<Rightarrow> rng \<Rightarrow> pyval" where
  "r_floor_spec P R g =
     (let V1 = map fst (jointly P R);
          V2 = map snd (jointly P R);
          n = min 500 (length V1)
      in percentile95 (map (shuffle_trial V1 V2 n g) [0..<1000]))"

text \<open>
  For two arrays and a rounding of the arithmetic: the covariance of the arrays on their
  jointly finite positions, and the standard deviations of the first and of the second
  array on these positions, as \<^verbatim>\<open>np.corrcoef\<close> computes them.
\<close>

definition masked_cov :: "(real \<Rightarrow> real) \<Rightarrow> f64 list \<Rightarrow> f64 list \<Rightarrow> f64" where
  "masked_cov rnd A B = np_cov_rnd rnd (map fst (jointly A B)) (map snd (jointly A B))"

definition masked_sd_fst :: "(real \<Rightarrow> real) \<Rightarrow> f64 list \<Rightarrow> f64 list \<Rightarrow> f64" where
  "masked_sd_fst rnd A B =
     fsqrt_rnd rnd (np_cov_rnd rnd (map fst (jointly A B)) (map fst (jointly A B)))"

definition masked_sd_snd :: "(real \<Rightarrow> real) \<Rightarrow> f64 list \<Rightarrow> f64 list \<Rightarrow> f64" where
  "masked_sd_snd rnd A B =
     fsqrt_rnd rnd (np_cov_rnd rnd (map snd (jointly A B)) (map snd (jointly A B)))"

text \<open>
  The mean of a list of reals and the sum of the products of the deviations of two
  lists from their means, for the closed form of the correlation.
\<close>

definition mean :: "real list \<Rightarrow> real" where
  "mean xs = sum_list xs / real (length xs)"

definition co_moment :: "real list \<Rightarrow> real list \<Rightarrow> real" where
  "co_moment xs ys = sum_list (map2 (\<lambda>x y. (x - mean xs) * (y - mean ys)) xs ys)"

section \<open>Concrete inputs\<close>

text \<open>A random source whose raw draws count up from zero.\<close>

definition counter_rng :: rng where
  "counter_rng = (\<lambda>i. i)"

text \<open>
  A random source whose draws repeat with period 4 and turn into the doubles
  \<open>0, 1/4, 1/2, 3/4\<close>.
\<close>

definition cycle_rng :: rng where
  "cycle_rng = (\<lambda>i. (i mod 4) * 2 ^ 51)"

text \<open>Three repeats of a response that is zero at both of its samples.\<close>

definition silent_raster :: ndarray3 where
  "silent_raster = \<lparr>shape0 = 3, shape1 = 1, shape2 = 2, item3 = (\<lambda>r c t. Fin 0)\<rparr>"

text \<open>
  Three repeats of four samples: the first sample is missing, the others rise by one;
  repeat \<open>r\<close> is shifted by \<open>r\<close>.
\<close>

definition ramp_raster :: ndarray3 where
  "ramp_raster =
     \<lparr>shape0 = 3, shape1 = 1, shape2 = 4,
      item3 = (\<lambda>r c t. if t = 0 then NaN else Fin (real (r + t)))\<rparr>"

text \<open>Two repeats of three samples.\<close>

definition pair_raster :: ndarray3 where
  "pair_raster = \<lparr>shape0 = 2, shape1 = 1, shape2 = 3, item3 = (\<lambda>r c t. Fin (real (r + t)))\<rparr>"

text \<open>A single repeat.\<close>

definition one_repeat_raster :: ndarray3 where
  "one_repeat_raster = \<lparr>shape0 = 1, shape1 = 1, shape2 = 4, item3 = (\<lambda>r c t. Fin (real t))\<rparr>"

text \<open>
  Folded predictions of four samples: one occurrence that rises by one; two occurrences,
  the first as before and the second constant; one occurrence that is finite at its first
  sample only.
\<close>

definition pred_ramp :: ndarray3 where
  "pred_ramp = \<lparr>shape0 = 1, shape1 = 1, shape2 = 4, item3 = (\<lambda>r c t. Fin (real t))\<rparr>"

definition pred_twice :: ndarray3 where
  "pred_twice =
     \<lparr>shape0 = 2, shape1 = 1, shape2 = 4,
      item3 = (\<lambda>r c t. if r = 0 then Fin (real t) else Fin 7)\<rparr>"

definition pred_first_only :: ndarray3 where
  "pred_first_only =
     \<lparr>shape0 = 1, shape1 = 1, shape2 = 4, item3 = (\<lambda>r c t. if t = 0 then Fin 1 else NaN)\<rparr>"

text \<open>
  One occurrence of four samples that is missing at its second sample and falls from 3 to
  2 over the last two.
\<close>

definition pred_back :: ndarray3 where
  "pred_back =
     \<lparr>shape0 = 1, shape1 = 1, shape2 = 4,
      item3 = (\<lambda>r c t. if t = 0 then Fin 0 else if t = 1 then NaN else Fin (5 - real t))\<rparr>"

text \<open>Recordings: a single-channel signal from its samples.\<close>

definition signal_of :: "f64 list \<Rightarrow> signal" where
  "signal_of xs = \<lparr>as_continuous = \<lparr>nrows = 1, ncols = length xs, item2 = (\<lambda>i j. xs ! j)\<rparr>\<rparr>"

definition scenario_B :: recording where
  "scenario_B =
     [''pred'' \<mapsto> signal_of [Fin 1, Fin 2, NaN, Fin 4, Fin 5],
      ''resp'' \<mapsto> signal_of [Fin 5, Fin 4, Fin 3, Fin 2, Fin 1]]"

definition no_overlap :: recording where
  "no_overlap =
     [''pred'' \<mapsto> signal_of [NaN, Fin 2], ''resp'' \<mapsto> signal_of [Fin 5, NaN]]"

text \<open>A one-channel prediction with a two-channel response that holds no finite sample.\<close>

definition two_channel_resp :: recording where
  "two_channel_resp =
     [''pred'' \<mapsto> signal_of [Fin 1, Fin 2],
      ''resp'' \<mapsto> \<lparr>as_continuous = \<lparr>nrows = 2, ncols = 2, item2 = (\<lambda>i j. NaN)\<rparr>\<rparr>]"

text \<open>
  A two-channel prediction with a one-channel response.
\<close>

definition two_channel_pred :: recording where
  "two_channel_pred =
     [''pred'' \<mapsto> \<lparr>as_continuous = \<lparr>nrows = 2, ncols = 2, item2 = (\<lambda>i j. Fin (real (i + j)))\<rparr>\<rparr>,
      ''resp'' \<mapsto> signal_of [Fin 1, Fin 2]]"

text \<open>
  A prediction and a response of three samples whose sums, products and roots are
  all exact in float64, and a pair with one missing sample in which the response is twice
  the prediction on the rest.
\<close>

definition skewed_pair :: recording where
  "skewed_pair =
     [''pred'' \<mapsto> signal_of [Fin 0, Fin 3, Fin 6],
      ''resp'' \<mapsto> signal_of [Fin 0, Fin 2, Fin 13]]"

definition doubled_ramp :: recording where
  "doubled_ramp =
     [''pred'' \<mapsto> signal_of [Fin 0, NaN, Fin 1, Fin 2],
      ''resp'' \<mapsto> signal_of [Fin 0, Fin 5, Fin 2, Fin 4]]"

section \<open>Basic facts\<close>

lemma and_then_Inl [simp]: "and_then (Inl e) f = Inl e"
  by (simp add: and_then_def)

lemma and_then_Inr [simp]: "and_then (Inr v) f = f v"
  by (simp add: and_then_def)

lemma and_then_eq_Inl:
  "and_then m f = Inl e \<longleftrightarrow> m = Inl e \<or> (\<exists>v. m = Inr v \<and> f v = Inl e)"
  by (cases m) simp_all

lemma and_then_eq_Inr:
  "and_then m f = Inr w \<longleftrightarrow> (\<exists>v. m = Inr v \<and> f v = Inr w)"
  by (cases m) simp_all

lemma mapM_map: "(\<And>x. x \<in> set xs \<Longrightarrow> f x = Inr (h x)) \<Longrightarrow> mapM f xs = Inr (map h xs)"
  by (induction xs) simp_all

lemma mapM_Inl: "mapM f xs = Inl e \<Longrightarrow> \<exists>x \<in> set xs. f x = Inl e"
  by (induction xs) (auto simp: and_then_eq_Inl)

lemma mapM_Inr_all: "mapM f xs = Inr ys \<Longrightarrow> x \<in> set xs \<Longrightarrow> \<exists>y. f x = Inr y"
  by (induction xs arbitrary: ys) (auto simp: and_then_eq_Inr)

lemma length_pairs_of: "length (pairs_of n) = n choose 2"
proof -
  have "length (pairs_of n) = sum_list (map (\<lambda>p1. n - Suc p1) [0..<n])"
    by (simp add: pairs_of_def length_concat comp_def)
  also have "\<dots> = (\<Sum>p<n. n - Suc p)"
    by (simp add: interv_sum_list_conv_sum_set_nat atLeast0LessThan)
  also have "\<dots> = (\<Sum>p<n. p)"
    by (rule sum.nat_diff_reindex)
  also have "\<dots> = n choose 2"
    by (simp add: choose_two Sum_Ico_nat lessThan_atLeast0)
  finally show ?thesis .
qed

lemma in_pairs_of: "(a, b) \<in> set (pairs_of n) \<Longrightarrow> a < n \<and> b < n"
  by (auto simp: pairs_of_def)

lemma length_np_argsort [simp]: "length (np_argsort u) = length u"
  by (simp add: np_argsort_def)

lemma set_np_argsort [simp]: "set (np_argsort u) = {0..<length u}"
  by (simp add: np_argsort_def)

section \<open>Masking a pair of arrays\<close>

lemma logical_and1_same:
  assumes "length a = length b"
  shows "logical_and1 a b = Inr (map2 (\<and>) a b)"
proof -
  have "map (\<lambda>i. a ! bc_index (length a) i \<and> b ! bc_index (length b) i) [0..<length a]
        = map (\<lambda>i. a ! i \<and> b ! i) [0..<length a]"
    using assms by (intro map_cong [OF refl]) (auto simp: bc_index_def)
  also have "\<dots> = map2 (\<and>) a b"
    using assms by (intro nth_equalityI) simp_all
  finally show ?thesis
    using assms by (simp add: logical_and1_def broadcast_dim_def)
qed

lemma select_fst:
  "length xs = length ys \<Longrightarrow>
   map fst (filter snd (zip xs (map2 (\<and>) (map isfinite xs) (map isfinite ys))))
     = map fst (jointly xs ys)"
  by (induction xs ys rule: list_induct2) (simp_all add: jointly_def)

lemma select_snd:
  "length xs = length ys \<Longrightarrow>
   map fst (filter snd (zip ys (map2 (\<and>) (map isfinite xs) (map isfinite ys))))
     = map snd (jointly xs ys)"
  by (induction xs ys rule: list_induct2) (simp_all add: jointly_def)

lemma masked_pair_same:
  assumes "length X1 = length X2"
  shows "masked_pair X1 X2 = Inr (map fst (jointly X1 X2), map snd (jointly X1 X2))"
  using assms
  by (simp add: masked_pair_def logical_and1_same bool_index1_def select_fst select_snd)

lemma masked_pair_diff:
  assumes "length X1 \<noteq> length X2"
  shows "\<exists>e. masked_pair X1 X2 = Inl e"
  using assms
  by (auto simp: masked_pair_def logical_and1_def bool_index1_def broadcast_dim_def)

lemma np_corrcoef01_masked:
  "np_corrcoef01 (map fst (jointly X1 X2)) (map snd (jointly X1 X2)) = Inr (corr_masked X1 X2)"
  by (simp add: np_corrcoef01_def corr_masked_def)

lemma row3_chan0: "i < shape0 X \<Longrightarrow> 0 < shape1 X \<Longrightarrow> row3 X i 0 = Inr (chan0 X i)"
  by (simp add: row3_def chan0_def)

lemma length_chan0 [simp]: "length (chan0 X i) = shape2 X"
  by (simp add: chan0_def)

lemma pair_corr_ok:
  assumes "0 < shape1 X" and "fst (pairs ! (sidx ! nn)) < shape0 X"
    and "snd (pairs ! (sidx ! nn)) < shape0 X"
  shows "pair_corr X pairs sidx nn =
         Inr (corr_masked (chan0 X (fst (pairs ! (sidx ! nn)))) (chan0 X (snd (pairs ! (sidx ! nn)))))"
  using assms by (simp add: pair_corr_def row3_chan0 masked_pair_same np_corrcoef01_masked)

lemma pair_corr_no_channel:
  assumes "shape1 X = 0"
  shows "pair_corr X pairs sidx nn = Inl IndexError"
  using assms by (simp add: pair_corr_def row3_def)

section \<open>The correlation in closed form\<close>

text \<open>
  On finite arrays of equal length, at least two samples each and neither of them
  constant, the entry that \<^verbatim>\<open>np.corrcoef\<close> computes is the Pearson coefficient, clipped.
\<close>

lemma fsum_Fin_aux: "foldl fadd (Fin a) (map Fin xs) = Fin (a + sum_list xs)"
  by (induction xs arbitrary: a) (simp_all add: add.assoc)

lemma fsum_Fin: "fsum (map Fin xs) = Fin (sum_list xs)"
  by (simp add: fsum_def fsum_Fin_aux)

lemma np_mean_Fin: "xs \<noteq> [] \<Longrightarrow> np_mean (map Fin xs) = Fin (mean xs)"
  by (simp add: np_mean_def fsum_Fin mean_def)

lemma centred_Fin: "xs \<noteq> [] \<Longrightarrow> centred (map Fin xs) = map Fin (map (\<lambda>x. x - mean xs) xs)"
  by (simp add: centred_def np_mean_Fin fsub_def)

lemma dot_Fin: "dot (map Fin xs) (map Fin ys) = Fin (sum_list (map2 (*) xs ys))"
proof -
  have "map2 fmul (map Fin xs) (map Fin ys) = map Fin (map2 (*) xs ys)"
    by (induction xs arbitrary: ys) (auto simp: zip_Cons1 split: list.splits)
  then have "dot (map Fin xs) (map Fin ys) = fsum (map Fin (map2 (*) xs ys))"
    unfolding dot_def by (rule arg_cong)
  then show ?thesis
    by (simp only: fsum_Fin)
qed

lemma np_cov_Fin:
  assumes "length xs = length ys" and "2 \<le> length xs"
  shows "np_cov (map Fin xs) (map Fin ys) = Fin (co_moment xs ys / (real (length xs) - 1))"
proof -
  have ne: "xs \<noteq> []" "ys \<noteq> []" using assms by auto
  have 1: "sum_list (map2 (*) (map (\<lambda>x. x - mean xs) xs) (map (\<lambda>y. y - mean ys) ys))
        = co_moment xs ys"
    by (simp add: co_moment_def zip_map_map comp_def split_def)
  have 2: "cov_fact (length xs) = Fin (1 / (real (length xs) - 1))"
    using assms(2) by (simp add: cov_fact_def)
  have "np_cov (map Fin xs) (map Fin ys)
        = fmul (Fin (co_moment xs ys)) (Fin (1 / (real (length xs) - 1)))"
    unfolding np_cov_def centred_Fin [OF ne(1)] centred_Fin [OF ne(2)] dot_Fin 1 length_map 2 ..
  then show ?thesis
    by simp
qed

lemma divide_three:
  fixes c k A B S :: real
  assumes "0 < k" and "A * B = S / k"
  shows "c / k / A / B = c / S"
proof -
  have "c / k / A / B = c / (k * (A * B))"
    by (simp add: divide_divide_eq_left mult.assoc)
  also have "k * (A * B) = S"
    using assms by simp
  finally show ?thesis .
qed

lemma pearson01_closed_form:
  assumes "length xs = length ys" and "2 \<le> length xs"
    and "0 < co_moment xs xs" and "0 < co_moment ys ys"
  shows "pearson01 (map Fin xs) (map Fin ys) =
           clip1 (Fin (co_moment xs ys / (sqrt (co_moment xs xs) * sqrt (co_moment ys ys))))"
proof -
  define k where "k = real (length xs) - 1"
  have k: "0 < k" using assms(2) by (simp add: k_def)
  have vx: "0 < co_moment xs xs / k" and vy: "0 < co_moment ys ys / k"
    using assms(3,4) k by simp_all
  have "sqrt (co_moment xs xs / k) * sqrt (co_moment ys ys / k)
        = sqrt (co_moment xs xs) * sqrt (co_moment ys ys) / k"
    using k by (simp add: real_sqrt_divide)
  from divide_three [OF k this]
  have q: "co_moment xs ys / k / sqrt (co_moment xs xs / k) / sqrt (co_moment ys ys / k)
        = co_moment xs ys / (sqrt (co_moment xs xs) * sqrt (co_moment ys ys))" .
  have c: "np_cov (map Fin xs) (map Fin ys) = Fin (co_moment xs ys / k)"
    "np_cov (map Fin xs) (map Fin xs) = Fin (co_moment xs xs / k)"
    "np_cov (map Fin ys) (map Fin ys) = Fin (co_moment ys ys / k)"
    using assms(1,2) by (simp_all add: np_cov_Fin k_def)
  have sx: "sqrt (co_moment xs xs / k) \<noteq> 0" and sy: "sqrt (co_moment ys ys / k) \<noteq> 0"
    using assms(3,4) k by simp_all
  have nx: "\<not> co_moment xs xs / k < 0" and ny: "\<not> co_moment ys ys / k < 0"
    using vx vy by simp_all
  show ?thesis
    unfolding pearson01_def c
    by (simp only: fsqrt.simps fdiv.simps nx ny sx sy if_False q)
qed

section \<open>Properties of \<^verbatim>\<open>_r_single\<close>\<close>

lemma length_rand [simp]: "length (fst (rand n g)) = n"
  by (simp add: rand_def)

lemma snd_rand [simp]: "snd (rand n g) = advance n g"
  by (simp add: rand_def)

lemma shuffled_pairs_in_range:
  assumes "p \<in> set (shuffled_pairs r g)"
  shows "fst p < r \<and> snd p < r"
proof -
  from assms obtain i where "i < r choose 2" and p: "p = pairs_of r ! i"
    by (auto simp: shuffled_pairs_def)
  then have "p \<in> set (pairs_of r)"
    by (simp add: length_pairs_of)
  then show ?thesis
    using in_pairs_of [of "fst p" "snd p" r] by simp
qed

lemma length_shuffled_pairs [simp]: "length (shuffled_pairs r g) = r choose 2"
  by (simp add: shuffled_pairs_def)

lemma mapM_pair_corr:
  assumes ch: "0 < shape1 X \<or> k = 0" and k: "k \<le> shape0 X choose 2"
  shows "mapM (pair_corr X (pairs_of (shape0 X))
                 (np_argsort (fst (rand (shape0 X choose 2) g)))) [0..<k]
         = Inr (map (\<lambda>(p1, p2). corr_masked (chan0 X p1) (chan0 X p2))
                  (take k (shuffled_pairs (shape0 X) g)))"
proof -
  let ?sidx = "np_argsort (fst (rand (shape0 X choose 2) g))"
  let ?pairs = "pairs_of (shape0 X)"
  let ?h = "\<lambda>nn. corr_masked (chan0 X (fst (?pairs ! (?sidx ! nn))))
                             (chan0 X (snd (?pairs ! (?sidx ! nn))))"
  have step: "pair_corr X ?pairs ?sidx nn = Inr (?h nn)" if "nn \<in> set [0..<k]" for nn
  proof -
    from that k have "nn < length (shuffled_pairs (shape0 X) g)" by simp
    then have "shuffled_pairs (shape0 X) g ! nn \<in> set (shuffled_pairs (shape0 X) g)"
      by (rule nth_mem)
    moreover have "shuffled_pairs (shape0 X) g ! nn = ?pairs ! (?sidx ! nn)"
      using that k by (simp add: shuffled_pairs_def)
    ultimately have "fst (?pairs ! (?sidx ! nn)) < shape0 X \<and> snd (?pairs ! (?sidx ! nn)) < shape0 X"
      using shuffled_pairs_in_range by metis
    moreover have "0 < shape1 X"
      using ch that by auto
    ultimately show ?thesis
      by (simp add: pair_corr_ok)
  qed
  have "map ?h [0..<k] = map (\<lambda>(p1, p2). corr_masked (chan0 X p1) (chan0 X p2))
                  (take k (shuffled_pairs (shape0 X) g))"
    using k by (intro nth_equalityI) (simp_all add: shuffled_pairs_def case_prod_beta)
  with mapM_map [of "[0..<k]" "pair_corr X ?pairs ?sidx" ?h, OF step] show ?thesis
    by simp
qed

lemma effective_N_if:
  "(if int (shape0 X choose 2) < N then int (shape0 X choose 2) else N) = effective_N X N"
  by (simp add: effective_N_def min_def)

lemma r_single_value:
  assumes "shape1 X = 1 \<or> (shape1 X = 0 \<and> effective_N X N = 0)" and "2 \<le> shape0 X"
    and "effective_N X N \<noteq> 1" and "0 \<le> effective_N X N"
  shows "r_single X N g =
         Inr (Float (floor05 (np_mean (sampled_corrs X N g))), advance (shape0 X choose 2) g)"
proof -
  have eff: "(if int (shape0 X choose 2) < N then int (shape0 X choose 2) else N) = effective_N X N"
    by (simp add: effective_N_def min_def)
  have k: "nat (effective_N X N) \<le> shape0 X choose 2"
    by (simp add: effective_N_def)
  have ch: "0 < shape1 X \<or> nat (effective_N X N) = 0" using assms(1) by auto
  have "\<not> 1 < shape1 X" using assms(1) by auto
  then show ?thesis
    using assms(2-)
    by (simp add: r_single_def Let_def eff split_beta mapM_pair_corr [OF ch k]
        sampled_corrs_def floor05_def)
qed

lemma r_single_few_repeats:
  "shape1 X \<le> 1 \<Longrightarrow> shape0 X \<le> 1 \<Longrightarrow> r_single X N g = Inr (PyInt 0, g)"
  by (simp add: r_single_def)

lemma r_single_multi: "1 < shape1 X \<Longrightarrow> r_single X N g = Inl multi_channel"
  by (simp add: r_single_def)

lemma r_single_two_repeats_err:
  "shape1 X \<le> 1 \<Longrightarrow> 2 \<le> shape0 X \<Longrightarrow> effective_N X N = 1 \<Longrightarrow> r_single X N g = Inl two_repeats"
  by (simp add: r_single_def effective_N_if Let_def)

lemma r_single_negative:
  "shape1 X \<le> 1 \<Longrightarrow> 2 \<le> shape0 X \<Longrightarrow> effective_N X N < 0 \<Longrightarrow>
   r_single X N g = Inl (ValueError ''negative dimensions are not allowed'')"
  by (simp add: r_single_def effective_N_if Let_def)

lemma r_single_no_channel:
  assumes "shape1 X = 0" and "2 \<le> shape0 X" and "2 \<le> effective_N X N"
  shows "r_single X N g = Inl IndexError"
proof -
  have eff: "(if int (shape0 X choose 2) < N then int (shape0 X choose 2) else N) = effective_N X N"
    by (simp add: effective_N_def min_def)
  obtain m where m: "nat (effective_N X N) = Suc m"
    using assms(3) by (cases "nat (effective_N X N)") auto
  have "[0..<nat (effective_N X N)] = 0 # [1..<Suc m]"
    unfolding m by (simp add: upt_rec)
  then have "mapM (pair_corr X (pairs_of (shape0 X)) (np_argsort (fst (rand (shape0 X choose 2) g))))
           [0..<nat (effective_N X N)] = Inl IndexError"
    using assms(1) by (simp add: pair_corr_no_channel)
  then show ?thesis
    using assms by (simp add: r_single_def Let_def eff split_beta)
qed

lemma floor05_cases: "(m = NaN \<and> floor05 m = NaN) \<or> fle (Fin (5 / 100)) (floor05 m)"
  by (cases m) (auto simp: floor05_def fle_def)

lemma floor05_NaN [simp]: "floor05 NaN = NaN"
  by (simp add: floor05_def)

lemma two_repeats_neq [simp]:
  "multi_channel \<noteq> two_repeats" "IndexError \<noteq> two_repeats"
  "ValueError ''negative dimensions are not allowed'' \<noteq> two_repeats"
  by (simp_all add: multi_channel_def two_repeats_def)

lemma r_single_error_iff:
  "r_single X N g = Inl two_repeats \<longleftrightarrow> shape1 X \<le> 1 \<and> effective_N X N = 1"
proof (cases "1 < shape1 X")
  case True
  then show ?thesis by (simp add: r_single_multi)
next
  case ch: False
  show ?thesis
  proof (cases "shape0 X \<le> 1")
    case True
    then have c0: "shape0 X choose 2 = 0" by (simp add: binomial_eq_0)
    have "effective_N X N \<noteq> 1" unfolding effective_N_def c0 by simp
    with ch True show ?thesis by (simp add: r_single_few_repeats)
  next
    case False
    then have rep: "2 \<le> shape0 X" by simp
    consider "effective_N X N = 1" | "effective_N X N < 0" | "effective_N X N = 0"
      | "2 \<le> effective_N X N" "shape1 X = 1" | "2 \<le> effective_N X N" "shape1 X = 0"
      using ch by linarith
    then show ?thesis
    proof cases
      case 1
      with ch rep show ?thesis by (simp add: r_single_two_repeats_err)
    next
      case 2
      with ch rep show ?thesis by (simp add: r_single_negative)
    next
      case 3
      with ch rep have "shape1 X = 1 \<or> (shape1 X = 0 \<and> effective_N X N = 0)" by auto
      with 3 rep show ?thesis by (simp add: r_single_value)
    next
      case 4
      with rep show ?thesis by (simp add: r_single_value)
    next
      case 5
      with rep show ?thesis by (simp add: r_single_no_channel)
    qed
  qed
qed

subsection \<open>The concrete rasters\<close>

lemmas pearson_defs = corr_masked_def jointly_def pearson01_def np_cov_def cov_fact_def dot_def
  centred_def np_mean_def fsum_def fsub_def clip1_def inf_of_def

lemma three_choose_two [simp]: "(3::nat) choose 2 = 3"
  by (simp add: choose_two)

lemma silent_shape [simp]:
  "shape0 silent_raster = 3" "shape1 silent_raster = 1" "shape2 silent_raster = 2"
  by (simp_all add: silent_raster_def)

lemma ramp_shape [simp]:
  "shape0 ramp_raster = 3" "shape1 ramp_raster = 1" "shape2 ramp_raster = 4"
  by (simp_all add: ramp_raster_def)

lemma chan0_silent: "chan0 silent_raster i = [Fin 0, Fin 0]"
  by (simp add: chan0_def silent_raster_def upt_rec)

lemma corr_silent: "corr_masked (chan0 silent_raster i) (chan0 silent_raster j) = NaN"
  by (simp add: chan0_silent pearson_defs)

lemma sampled_silent: "sampled_corrs silent_raster 100 g = [NaN, NaN, NaN]"
proof -
  have "sampled_corrs silent_raster 100 g = map (\<lambda>p. NaN) (take 3 (shuffled_pairs 3 g))"
    by (simp add: sampled_corrs_def effective_N_def corr_silent case_prod_beta)
  also have "\<dots> = replicate 3 NaN"
    by (simp add: map_replicate_const)
  finally show ?thesis by (simp add: numeral_3_eq_3)
qed

lemma chan0_ramp: "chan0 ramp_raster i = [NaN, Fin (real i + 1), Fin (real i + 2), Fin (real i + 3)]"
  by (simp add: chan0_def ramp_raster_def upt_rec)

lemma centred_ramp: "centred [Fin (x + 1), Fin (x + 2), Fin (x + 3)] = [Fin (- 1), Fin 0, Fin 1]"
proof -
  have "np_mean [Fin (x + 1), Fin (x + 2), Fin (x + 3)] = Fin (x + 2)"
    by (simp add: np_mean_def fsum_def field_simps)
  then show ?thesis
    by (simp add: centred_def fsub_def)
qed

lemma corr_ramp: "corr_masked (chan0 ramp_raster i) (chan0 ramp_raster j) = Fin 1"
  by (simp add: chan0_ramp corr_masked_def jointly_def pearson01_def np_cov_def centred_ramp
      dot_def fsum_def cov_fact_def clip1_def)

lemma sampled_ramp: "sampled_corrs ramp_raster 100 g = [Fin 1, Fin 1, Fin 1]"
proof -
  have "sampled_corrs ramp_raster 100 g = map (\<lambda>p. Fin 1) (take 3 (shuffled_pairs 3 g))"
    by (simp add: sampled_corrs_def effective_N_def corr_ramp case_prod_beta)
  also have "\<dots> = replicate 3 (Fin 1)"
    by (simp add: map_replicate_const)
  finally show ?thesis by (simp add: numeral_3_eq_3)
qed

subsection \<open>The claims on \<^verbatim>\<open>_r_single\<close>\<close>

text \<open>
  Claim C2, as amended. On a single-channel raster, \<^verbatim>\<open>_r_single\<close> returns the integer 0
  when there is at most one repeat. With at least three repeats and a cap \<open>N\<close> of at
  least 2 it returns the mean of the sampled pairwise correlations with the floor 0.05
  under it: the result is at least 0.05, unless that mean is NaN, and then the result is
  NaN (the comparison \<^verbatim>\<open>rac < 0.05\<close> is false on NaN).
\<close>

theorem r_single_reliability:
  assumes "shape1 X = 1"
  shows "(shape0 X \<le> 1 \<longrightarrow> r_single X N g = Inr (PyInt 0, g)) \<and>
         (3 \<le> shape0 X \<and> 2 \<le> N \<longrightarrow>
            r_single X N g = Inr (Float (floor05 (np_mean (sampled_corrs X N g))),
                                  advance (shape0 X choose 2) g) \<and>
            ((np_mean (sampled_corrs X N g) = NaN \<and>
              floor05 (np_mean (sampled_corrs X N g)) = NaN) \<or>
             fle (Fin (5 / 100)) (floor05 (np_mean (sampled_corrs X N g)))))"
proof (intro conjI impI)
  assume "shape0 X \<le> 1"
  with assms show "r_single X N g = Inr (PyInt 0, g)"
    by (simp add: r_single_few_repeats)
next
  assume a: "3 \<le> shape0 X \<and> 2 \<le> N"
  then have "3 * 2 \<le> shape0 X * (shape0 X - 1)"
    by (intro mult_le_mono) auto
  then have "3 \<le> shape0 X * (shape0 X - 1) div 2"
    by simp
  then have "2 \<le> effective_N X N"
    using a by (simp add: effective_N_def choose_two)
  with assms a show "r_single X N g = Inr (Float (floor05 (np_mean (sampled_corrs X N g))),
                                  advance (shape0 X choose 2) g)"
    by (simp add: r_single_value)
next
  show "(np_mean (sampled_corrs X N g) = NaN \<and>
              floor05 (np_mean (sampled_corrs X N g)) = NaN) \<or>
             fle (Fin (5 / 100)) (floor05 (np_mean (sampled_corrs X N g)))"
    by (rule floor05_cases)
qed

text \<open>
  The theorem at the ramp raster with the default cap: its three pairs correlate
  perfectly, and the result is 1.
\<close>

theorem r_single_reliability_witness:
  "shape1 ramp_raster = 1 \<and> 3 \<le> shape0 ramp_raster \<and> (2::int) \<le> 100 \<and>
   r_single ramp_raster 100 counter_rng = Inr (Float (Fin 1), advance 3 counter_rng) \<and>
   fle (Fin (5 / 100)) (Fin 1)"
  using r_single_reliability [of ramp_raster 100 counter_rng]
  by (simp add: sampled_ramp np_mean_def fsum_def floor05_def fle_def)

text \<open>
  Claim C2 as stated fails: three repeats of a constant response give NaN for every
  pair (the variances are zero), the mean is NaN, and NaN is returned, which is not at
  least 0.05.
\<close>

theorem r_single_constant_raster:
  "shape0 silent_raster = 3 \<and> shape1 silent_raster = 1 \<and>
   r_single silent_raster 100 counter_rng = Inr (Float NaN, advance 3 counter_rng) \<and>
   \<not> fle (Fin (5 / 100)) NaN"
proof -
  have "effective_N silent_raster 100 = 3"
    by (simp add: effective_N_def)
  then have "r_single silent_raster 100 counter_rng =
      Inr (Float (floor05 (np_mean (sampled_corrs silent_raster 100 counter_rng))),
           advance (shape0 silent_raster choose 2) counter_rng)"
    by (intro r_single_value) simp_all
  then show ?thesis
    by (simp add: sampled_silent np_mean_def fsum_def fle_def)
qed

text \<open>
  Claim C4, as amended. On a single-channel raster with exactly two repeats the pair count
  is 1, and \<^verbatim>\<open>_r_single\<close> raises the error ``2 repeats condition not supported
  yet.'' for every cap \<open>N\<close> of at least one pair (the default is 100). With the cap
  \<open>N = 0\<close> it returns NaN, the mean of no correlation, after one draw of the random
  source; with a negative cap \<^verbatim>\<open>np.zeros\<close> raises ValueError for the negative
  dimension.
\<close>

theorem r_single_two_repeats:
  assumes "shape1 X = 1" and "shape0 X = 2"
  shows "r_single X N g =
           (if 1 \<le> N then Inl two_repeats
            else if N = 0 then Inr (Float NaN, advance 1 g)
            else Inl (ValueError ''negative dimensions are not allowed''))"
proof -
  have eff: "effective_N X N = min N 1"
    using assms by (simp add: effective_N_def)
  consider "1 \<le> N" | "N = 0" | "N < 0" by linarith
  then show ?thesis
  proof cases
    case 1
    with eff have "effective_N X N = 1" by simp
    with assms 1 show ?thesis by (simp add: r_single_error_iff)
  next
    case 2
    with eff have e0: "effective_N X N = 0" by simp
    have "r_single X N g =
         Inr (Float (floor05 (np_mean (sampled_corrs X N g))), advance (shape0 X choose 2) g)"
      using assms e0 by (intro r_single_value) simp_all
    with 2 assms(2) e0 show ?thesis
      by (simp add: sampled_corrs_def floor05_NaN np_mean_def fsum_def)
  next
    case 3
    with eff have "effective_N X N < 0" by simp
    with assms 3 show ?thesis
      by (simp add: r_single_negative)
  qed
qed

theorem r_single_two_repeats_witness:
  "shape1 pair_raster = 1 \<and> shape0 pair_raster = 2 \<and>
   r_single pair_raster 100 counter_rng = Inl two_repeats \<and>
   r_single pair_raster 1 counter_rng = Inl two_repeats \<and>
   r_single pair_raster (- 1) counter_rng
     = Inl (ValueError ''negative dimensions are not allowed'')"
  using r_single_two_repeats [of pair_raster 100 counter_rng]
    r_single_two_repeats [of pair_raster 1 counter_rng]
    r_single_two_repeats [of pair_raster "- 1" counter_rng]
  by (simp add: pair_raster_def)

text \<open>
  Claim C4 as stated fails: with the cap \<open>N = 0\<close> a single-channel raster of two
  repeats gets the value NaN and no error is raised.
\<close>

theorem r_single_two_repeats_zero_cap:
  "shape1 pair_raster = 1 \<and> shape0 pair_raster = 2 \<and>
   r_single pair_raster 0 counter_rng = Inr (Float NaN, advance 1 counter_rng)"
proof -
  have e0: "effective_N pair_raster 0 = 0"
    by (simp add: effective_N_def pair_raster_def)
  have "r_single pair_raster 0 counter_rng =
         Inr (Float (floor05 (np_mean (sampled_corrs pair_raster 0 counter_rng))),
              advance (shape0 pair_raster choose 2) counter_rng)"
    using e0 by (intro r_single_value) (simp_all add: pair_raster_def)
  then show ?thesis
    by (simp add: sampled_corrs_def e0 floor05_NaN np_mean_def fsum_def)
       (simp add: pair_raster_def)
qed

text \<open>
  Claim C9. \<^verbatim>\<open>_r_single\<close> raises its ``not supported'' error exactly when the raster
  has at most one channel and the cap reduced to the pair count,
  \<open>min N (repeats * (repeats - 1) / 2)\<close>, is 1. In particular the cap \<open>N = 1\<close> raises
  it on every such raster with two or more repeats.
\<close>

theorem r_single_unsupported_iff:
  "(r_single X N g = Inl two_repeats \<longleftrightarrow>
      shape1 X \<le> 1 \<and> min N (int (shape0 X * (shape0 X - 1) div 2)) = 1)
   \<and> (shape1 X \<le> 1 \<and> 2 \<le> shape0 X \<longrightarrow> r_single X 1 g = Inl two_repeats)"
proof -
  have "1 \<le> shape0 X choose 2" if "2 \<le> shape0 X"
    using that by (metis binomial_eq_0_iff not_less_eq_eq not_less less_one Suc_eq_plus1 add.commute)
  then have "2 \<le> shape0 X \<Longrightarrow> effective_N X 1 = 1"
    by (simp add: effective_N_def min_def)
  then show ?thesis
    by (auto simp add: r_single_error_iff effective_N_def choose_two)
qed

theorem r_single_unsupported_iff_witness:
  "shape1 ramp_raster \<le> 1 \<and> 2 \<le> shape0 ramp_raster \<and>
   min 1 (int (shape0 ramp_raster * (shape0 ramp_raster - 1) div 2)) = 1 \<and>
   r_single ramp_raster 1 counter_rng = Inl two_repeats"
  using r_single_unsupported_iff [of ramp_raster 1 counter_rng]
  by simp

section \<open>Properties of \<^verbatim>\<open>corrcoef\<close>\<close>

lemma flat2_one_row: "nrows A = 1 \<Longrightarrow> flat2 A = samples A"
  by (simp add: flat2_def samples_def)

lemma length_samples [simp]: "length (samples A) = ncols A"
  by (simp add: samples_def)

lemma logical_and2_one_row:
  assumes "nrows A = 1" and "nrows B = 1" and "ncols A = ncols B"
  shows "\<exists>ff. logical_and2 A B = Inr ff \<and> nrows ff = 1 \<and> ncols ff = ncols A \<and>
              samples ff = map2 (\<and>) (samples A) (samples B)"
proof -
  let ?ff = "\<lparr>nrows = 1, ncols = ncols A,
               item2 = (\<lambda>i j. item2 A (bc_index (nrows A) i) (bc_index (ncols A) j)
                            \<and> item2 B (bc_index (nrows B) i) (bc_index (ncols B) j))\<rparr>"
  have 1: "logical_and2 A B = Inr ?ff"
    using assms by (simp add: logical_and2_def broadcast_dim_def)
  have "samples ?ff = map (\<lambda>j. item2 A 0 j \<and> item2 B 0 j) [0..<ncols A]"
    unfolding samples_def using assms
    by (intro map_cong) (auto simp: bc_index_def)
  also have "\<dots> = map2 (\<and>) (samples A) (samples B)"
    using assms by (intro nth_equalityI) (simp_all add: samples_def)
  finally show ?thesis
    using 1 by (intro exI [of _ ?ff]) simp
qed

lemma samples_isfinite2: "samples (isfinite2 A) = map isfinite (samples A)"
  by (simp add: samples_def isfinite2_def)

lemma shape_isfinite2 [simp]:
  "nrows (isfinite2 A) = nrows A" "ncols (isfinite2 A) = ncols A"
  by (simp_all add: isfinite2_def)

lemma filter_snd_empty:
  "length xs = length ys \<Longrightarrow>
   filter id (map2 (\<and>) (map isfinite xs) (map isfinite ys)) = [] \<longleftrightarrow> jointly xs ys = []"
  by (induction xs ys rule: list_induct2) (simp_all add: jointly_def)

lemma samples_signal_of [simp]: "samples (as_continuous (signal_of xs)) = xs"
  by (simp add: samples_def signal_of_def map_nth)

lemma shape_signal_of [simp]:
  "nrows (as_continuous (signal_of xs)) = 1" "ncols (as_continuous (signal_of xs)) = length xs"
  by (simp_all add: signal_of_def)

lemma sqrt_twice: "0 < a \<Longrightarrow> fdiv (fdiv (Fin c) (fsqrt (Fin a))) (fsqrt (Fin a)) = Fin (c / a)"
  by (simp add: divide_divide_eq_left)

lemma corr_scenario_B:
  "corr_masked [Fin 1, Fin 2, NaN, Fin 4, Fin 5] [Fin 5, Fin 4, Fin 3, Fin 2, Fin 1] = Fin (- 1)"
proof -
  have c1: "centred [Fin 1, Fin 2, Fin 4, Fin 5] = [Fin (- 2), Fin (- 1), Fin 1, Fin 2]"
    by (simp add: centred_def np_mean_def fsum_def fsub_def)
  have c2: "centred [Fin 5, Fin 4, Fin 2, Fin 1] = [Fin 2, Fin 1, Fin (- 1), Fin (- 2)]"
    by (simp add: centred_def np_mean_def fsum_def fsub_def)
  have "np_cov [Fin 1, Fin 2, Fin 4, Fin 5] [Fin 5, Fin 4, Fin 2, Fin 1] = Fin (- (10 / 3))"
    "np_cov [Fin 1, Fin 2, Fin 4, Fin 5] [Fin 1, Fin 2, Fin 4, Fin 5] = Fin (10 / 3)"
    "np_cov [Fin 5, Fin 4, Fin 2, Fin 1] [Fin 5, Fin 4, Fin 2, Fin 1] = Fin (10 / 3)"
    by (simp_all add: np_cov_def c1 c2 dot_def fsum_def cov_fact_def)
  then show ?thesis
    by (simp add: corr_masked_def jointly_def pearson01_def sqrt_twice clip1_def
        del: fdiv.simps fsqrt.simps)
qed

text \<open>
  Claim C6. For a single-channel prediction and response of equal length,
  \<^verbatim>\<open>corrcoef\<close> returns the integer 0 when no position holds two finite samples, and
  otherwise the entry \<open>[0, 1]\<close> of \<^verbatim>\<open>np.corrcoef\<close> on the two arrays restricted to the
  positions where both are finite.
\<close>

theorem corrcoef_pairwise:
  assumes "result pred_name = Some ps" and "result resp_name = Some rs"
    and "nrows (as_continuous ps) = 1" and "nrows (as_continuous rs) = 1"
    and "ncols (as_continuous ps) = ncols (as_continuous rs)"
  shows "corrcoef result pred_name resp_name =
           Inr (if jointly (samples (as_continuous ps)) (samples (as_continuous rs)) = []
                then PyInt 0
                else Float (corr_masked (samples (as_continuous ps)) (samples (as_continuous rs))))"
proof -
  let ?P = "as_continuous ps" and ?R = "as_continuous rs"
  obtain ff where ff: "logical_and2 (isfinite2 ?P) (isfinite2 ?R) = Inr ff"
    "nrows ff = 1" "ncols ff = ncols ?P"
    "samples ff = map2 (\<and>) (map isfinite (samples ?P)) (map isfinite (samples ?R))"
    using logical_and2_one_row [of "isfinite2 ?P" "isfinite2 ?R"] assms(3-5)
    by (auto simp: samples_isfinite2)
  have len: "length (samples ?P) = length (samples ?R)"
    using assms(5) by simp
  have cnt: "count_true2 ff = 0 \<longleftrightarrow> jointly (samples ?P) (samples ?R) = []"
    unfolding count_true2_def flat2_one_row [OF ff(2)] ff(4) length_0_conv
    by (rule filter_snd_empty [OF len])
  have p: "bool_index2 ?P ff = Inr (map fst (jointly (samples ?P) (samples ?R)))"
    using ff assms(3) len by (simp add: bool_index2_def flat2_one_row select_fst)
  have r: "bool_index2 ?R ff = Inr (map snd (jointly (samples ?P) (samples ?R)))"
    using ff assms(4,5) len by (simp add: bool_index2_def flat2_one_row select_snd)
  show ?thesis
    using assms(1-3) ff(1) cnt p r
    by (simp add: corrcoef_def Let_def np_corrcoef01_masked)
qed

text \<open>
  The theorem at two recordings: one without a jointly finite position, and the
  prediction \<open>[1, 2, NaN, 4, 5]\<close> against the response \<open>[5, 4, 3, 2, 1]\<close>, which
  correlate at \<open>-1\<close> on the four positions left.
\<close>

theorem corrcoef_pairwise_witness:
  "corrcoef no_overlap ''pred'' ''resp'' = Inr (PyInt 0) \<and>
   corrcoef scenario_B ''pred'' ''resp'' = Inr (Float (Fin (- 1)))"
proof -
  have "corrcoef no_overlap ''pred'' ''resp'' = Inr (PyInt 0)"
    using corrcoef_pairwise [of no_overlap "''pred''" "signal_of [NaN, Fin 2]"
        "''resp''" "signal_of [Fin 5, NaN]"]
    by (simp add: no_overlap_def jointly_def)
  moreover have "corrcoef scenario_B ''pred'' ''resp'' = Inr (Float (Fin (- 1)))"
    using corrcoef_pairwise [of scenario_B "''pred''" "signal_of [Fin 1, Fin 2, NaN, Fin 4, Fin 5]"
        "''resp''" "signal_of [Fin 5, Fin 4, Fin 3, Fin 2, Fin 1]"]
    by (simp add: scenario_B_def corr_scenario_B) (simp add: jointly_def)
  ultimately show ?thesis by simp
qed

lemma multi_channel_neq [simp]:
  "KeyError k \<noteq> multi_channel" "IndexError \<noteq> multi_channel"
  "ValueError ''operands could not be broadcast together'' \<noteq> multi_channel"
  "ValueError ''all the input array dimensions must match'' \<noteq> multi_channel"
  by (simp_all add: multi_channel_def)

lemma logical_and2_error:
  "logical_and2 A B = Inl e \<Longrightarrow> e = ValueError ''operands could not be broadcast together''"
  by (auto simp: logical_and2_def split: option.splits)

lemma bool_index2_error: "bool_index2 A M = Inl e \<Longrightarrow> e = IndexError"
  by (auto simp: bool_index2_def split: if_splits)

lemma np_corrcoef01_error:
  "np_corrcoef01 xs ys = Inl e \<Longrightarrow> e = ValueError ''all the input array dimensions must match''"
  by (auto simp: np_corrcoef01_def split: if_splits)

text \<open>
  Claim C5, as amended. \<^verbatim>\<open>corrcoef\<close> raises the multi-channel error exactly when both
  signals are present and the prediction has more than one channel: the test reads
  \<^verbatim>\<open>pred.shape[0]\<close> and never the shape of the response.
\<close>

theorem corrcoef_multi_channel_iff:
  "corrcoef result pred_name resp_name = Inl multi_channel \<longleftrightarrow>
     (\<exists>ps rs. result pred_name = Some ps \<and> result resp_name = Some rs
        \<and> 1 < nrows (as_continuous ps))"
proof (cases "result pred_name")
  case None
  then show ?thesis by (simp add: corrcoef_def)
next
  case (Some ps)
  note ps = this
  show ?thesis
  proof (cases "result resp_name")
    case None
    with ps show ?thesis by (simp add: corrcoef_def)
  next
    case (Some rs)
    show ?thesis
    proof (cases "1 < nrows (as_continuous ps)")
      case True
      with ps Some show ?thesis by (simp add: corrcoef_def)
    next
      case False
      have "corrcoef result pred_name resp_name \<noteq> Inl multi_channel"
        using ps Some False
        by (auto simp: corrcoef_def Let_def and_then_eq_Inl multi_channel_def
            dest!: logical_and2_error bool_index2_error np_corrcoef01_error split: if_splits)
      with ps Some False show ?thesis by simp
    qed
  qed
qed

theorem corrcoef_multi_channel_iff_witness:
  "corrcoef two_channel_pred ''pred'' ''resp'' = Inl multi_channel \<and>
   nrows (as_continuous (the (two_channel_pred ''pred''))) = 2"
  using corrcoef_multi_channel_iff [of two_channel_pred "''pred''" "''resp''"]
  by (simp add: two_channel_pred_def)

text \<open>
  Claim C5 as stated fails: with a one-channel prediction and a two-channel response
  that holds no finite sample the broadcast mask is empty and the call returns 0.
\<close>

theorem corrcoef_two_channel_response:
  "nrows (as_continuous (the (two_channel_resp ''resp''))) = 2 \<and>
   corrcoef two_channel_resp ''pred'' ''resp'' = Inr (PyInt 0)"
  by (simp add: two_channel_resp_def corrcoef_def signal_of_def logical_and2_def isfinite2_def
      broadcast_dim_def count_true2_def flat2_def)

section \<open>The two orders of the arguments of \<^verbatim>\<open>corrcoef\<close>\<close>

subsection \<open>Rounding\<close>

lemma rne_of_int [simp]: "rne (of_int k) = k"
  by (simp add: rne_def)

lemma rne_near:
  assumes "\<bar>y - of_int M\<bar> < 1 / 2"
  shows "rne y = M"
proof -
  have r: "round y = M"
    using assms by (rule round_unique')
  have "frac y \<noteq> 1 / 2"
  proof
    assume h: "frac y = 1 / 2"
    then have y: "y = of_int \<lfloor>y\<rfloor> + 1 / 2"
      by (simp add: frac_def)
    have "\<bar>of_int (\<lfloor>y\<rfloor> - M) + (1 / 2 :: real)\<bar> < 1 / 2"
      using assms y by (simp add: algebra_simps)
    then have "-1 < (of_int (\<lfloor>y\<rfloor> - M) :: real) \<and> (of_int (\<lfloor>y\<rfloor> - M) :: real) < 0"
      by linarith
    then have "-1 < \<lfloor>y\<rfloor> - M \<and> \<lfloor>y\<rfloor> - M < 0"
      by linarith
    then show False by linarith
  qed
  with r show ?thesis by (simp add: rne_def)
qed

lemma floor_log2:
  assumes "2 powi e \<le> x" and "x < 2 powi (e + 1)"
  shows "\<lfloor>log 2 x\<rfloor> = e"
proof -
  have "(0::real) < 2 powi e"
    by (rule zero_less_power_int) simp
  with assms(1) have pos: "0 < x" by linarith
  have "2 powr (real_of_int e) \<le> x \<and> x < 2 powr (real_of_int (e + 1))"
    using assms powr_real_of_int' [of 2 e] powr_real_of_int' [of 2 "e + 1"] by simp
  then show ?thesis
    using pos floor_log_eq_powr_iff [of x 2 e] by simp
qed

lemma round64_nearest:
  assumes "2 powi e \<le> \<bar>x\<bar>" and "\<bar>x\<bar> < 2 powi (e + 1)"
    and "\<bar>x * 2 powi (52 - e) - of_int M\<bar> < 1 / 2"
  shows "round64 x = of_int M * 2 powi (e - 52)"
proof -
  have "(0::real) < 2 powi e"
    by (rule zero_less_power_int) simp
  with assms(1) have "0 < \<bar>x\<bar>" by linarith
  then have "x \<noteq> 0" by simp
  moreover have "\<lfloor>log 2 \<bar>x\<bar>\<rfloor> = e"
    by (rule floor_log2 [OF assms(1,2)])
  ultimately show ?thesis
    by (simp add: round64_def rne_near [OF assms(3)])
qed

lemma round64_dyadic:
  assumes "\<bar>k\<bar> < 2 ^ 53"
  shows "round64 (of_int k * 2 powi j) = of_int k * 2 powi j"
proof (cases "k = 0")
  case True
  then show ?thesis by (simp add: round64_def)
next
  case False
  let ?x = "of_int k * 2 powi j :: real"
  define e where "e = \<lfloor>log 2 \<bar>?x\<bar>\<rfloor>"
  have x0: "?x \<noteq> 0" using False by simp
  then have pos: "0 < \<bar>?x\<bar>" by simp
  have "2 powr (real_of_int e) \<le> \<bar>?x\<bar>"
    using floor_log_eq_powr_iff [of "\<bar>?x\<bar>" 2 e] pos e_def by simp
  then have lo: "2 powi e \<le> \<bar>?x\<bar>"
    by (simp add: powr_real_of_int')
  have "\<bar>?x\<bar> = \<bar>of_int k\<bar> * 2 powi j"
    by (simp add: abs_mult)
  also have "\<dots> < 2 ^ 53 * 2 powi j"
  proof -
    have "real_of_int \<bar>k\<bar> < real_of_int (2 ^ 53)"
      using assms by (simp only: of_int_less_iff)
    then have "\<bar>real_of_int k\<bar> < 2 ^ 53"
      by simp
    then show ?thesis
      by (intro mult_strict_right_mono) simp_all
  qed
  also have "\<dots> = 2 powi (53 + j)"
    by (simp add: power_int_add)
  finally have "2 powi e < (2::real) powi (53 + j)"
    using lo by simp
  then have "e < 53 + j"
    using power_int_increasing [of "53 + j" e "2::real"] by (cases "e < 53 + j") simp_all
  then have n: "0 \<le> j + 52 - e" by simp
  have "?x * 2 powi (52 - e) = of_int k * 2 powi (j + 52 - e)"
    by (simp add: power_int_add power_int_diff)
  also have "\<dots> = of_int (k * 2 ^ nat (j + 52 - e))"
    using n by (simp add: power_int_def)
  finally have "rne (?x * 2 powi (52 - e)) = k * 2 ^ nat (j + 52 - e)"
    by (simp only: rne_of_int)
  then have "round64 ?x = of_int (k * 2 ^ nat (j + 52 - e)) * 2 powi (e - 52)"
    using x0 by (simp add: round64_def e_def Let_def)
  also have "\<dots> = of_int k * (2 powi (j + 52 - e) * 2 powi (e - 52))"
    using n by (simp add: power_int_def)
  also have "2 powi (j + 52 - e) * 2 powi (e - 52) = (2::real) powi j"
    by (simp flip: power_int_add)
  finally show ?thesis .
qed

lemma round64_0 [simp]: "round64 0 = 0"
  by (simp add: round64_def)

lemma round64_1 [simp]: "round64 1 = 1"
  using round64_dyadic [of 1 0] by simp

lemma round64_neg_1 [simp]: "round64 (- 1) = - 1"
  using round64_dyadic [of "- 1" 0] by simp

lemma round64_numeral [simp]:
  "numeral n < (2 ^ 53 :: int) \<Longrightarrow> round64 (numeral n) = numeral n"
  using round64_dyadic [of "numeral n" 0] by simp

lemma round64_neg_numeral [simp]:
  "numeral n < (2 ^ 53 :: int) \<Longrightarrow> round64 (- numeral n) = - numeral n"
  using round64_dyadic [of "- numeral n" 0] by simp

lemma round64_half [simp]:
  "numeral n < (2 ^ 53 :: int) \<Longrightarrow> round64 (numeral n / 2) = numeral n / 2"
  using round64_dyadic [of "numeral n" "- 1"] by (simp add: power_int_minus field_simps)

lemma round64_one_half [simp]: "round64 (1 / 2) = 1 / 2"
  using round64_dyadic [of 1 "- 1"] by (simp add: power_int_minus field_simps)

lemma sqrt_9 [simp]: "sqrt 9 = 3"
  using real_sqrt_abs [of 3] by simp

lemma sqrt_49 [simp]: "sqrt 49 = 7"
  using real_sqrt_abs [of 7] by simp

lemma round64_13_14: "round64 (13 / 14) = 4181913939701175 / 4503599627370496"
  using round64_nearest [of "- 1" "13 / 14" 8363827879402350]
  by (simp add: power_int_minus power_int_def power_divide)

lemma round64_39_14: "round64 (39 / 14) = 3136435454775881 / 1125899906842624"
  using round64_nearest [of 1 "39 / 14" 6272870909551762]
  by (simp add: power_int_minus power_int_def power_divide)

lemma round64_third:
  "round64 (3136435454775881 / 3377699720527872) = 8363827879402349 / 9007199254740992"
  using round64_nearest [of "- 1" "3136435454775881 / 3377699720527872" 8363827879402349]
  by (simp add: power_int_minus power_int_def power_divide)

subsection \<open>Exact arithmetic\<close>

lemma rounded_id [simp]: "rounded (\<lambda>x. x) a = a"
  by (cases a) (simp_all add: rounded_def)

lemma fadd_rnd_exact: "fadd_rnd (\<lambda>x. x) = fadd"
  by (simp add: fun_eq_iff fadd_rnd_def)

lemma fsub_rnd_exact: "fsub_rnd (\<lambda>x. x) = fsub"
  by (simp add: fun_eq_iff fsub_rnd_def)

lemma fmul_rnd_exact: "fmul_rnd (\<lambda>x. x) = fmul"
  by (simp add: fun_eq_iff fmul_rnd_def)

lemma fdiv_rnd_exact: "fdiv_rnd (\<lambda>x. x) = fdiv"
  by (simp add: fun_eq_iff fdiv_rnd_def)

lemma fsqrt_rnd_exact: "fsqrt_rnd (\<lambda>x. x) = fsqrt"
  by (simp add: fun_eq_iff fsqrt_rnd_def)

lemma fsum_rnd_exact: "fsum_rnd (\<lambda>x. x) = fsum"
  by (intro ext) (simp only: fsum_rnd_def fsum_def fadd_rnd_exact)

lemma np_mean_rnd_exact: "np_mean_rnd (\<lambda>x. x) = np_mean"
  by (intro ext) (simp only: np_mean_rnd_def np_mean_def fsum_rnd_exact fdiv_rnd_exact)

lemma centred_rnd_exact: "centred_rnd (\<lambda>x. x) = centred"
  by (intro ext) (simp only: centred_rnd_def centred_def np_mean_rnd_exact fsub_rnd_exact)

lemma dot_rnd_exact: "dot_rnd (\<lambda>x. x) = dot"
  by (intro ext) (simp only: dot_rnd_def dot_def fsum_rnd_exact fmul_rnd_exact)

lemma cov_fact_rnd_exact: "cov_fact_rnd (\<lambda>x. x) = cov_fact"
  by (intro ext) (simp only: cov_fact_rnd_def cov_fact_def fdiv_rnd_exact)

lemma np_cov_rnd_exact: "np_cov_rnd (\<lambda>x. x) = np_cov"
  by (intro ext) (simp only: np_cov_rnd_def np_cov_def dot_rnd_exact centred_rnd_exact
      cov_fact_rnd_exact fmul_rnd_exact)

lemma pearson01_rnd_exact: "pearson01_rnd (\<lambda>x. x) = pearson01"
  by (intro ext) (simp only: pearson01_rnd_def pearson01_def np_cov_rnd_exact fdiv_rnd_exact
      fsqrt_rnd_exact)

lemma np_corrcoef01_rnd_exact: "np_corrcoef01_rnd (\<lambda>x. x) = np_corrcoef01"
  by (intro ext) (simp only: np_corrcoef01_rnd_def np_corrcoef01_def pearson01_rnd_exact)

lemma corrcoef_rnd_exact: "corrcoef_rnd (\<lambda>x. x) = corrcoef"
  by (intro ext) (simp only: corrcoef_rnd_def corrcoef_def np_corrcoef01_rnd_exact)

subsection \<open>Swapping the arguments\<close>

lemma corrcoef_rnd_masked:
  assumes "result pred_name = Some ps" and "result resp_name = Some rs"
    and "nrows (as_continuous ps) = 1" and "nrows (as_continuous rs) = 1"
    and "ncols (as_continuous ps) = ncols (as_continuous rs)"
  shows "corrcoef_rnd rnd result pred_name resp_name =
           Inr (if jointly (samples (as_continuous ps)) (samples (as_continuous rs)) = []
                then PyInt 0
                else Float (pearson01_rnd rnd
                       (map fst (jointly (samples (as_continuous ps)) (samples (as_continuous rs))))
                       (map snd (jointly (samples (as_continuous ps)) (samples (as_continuous rs))))))"
proof -
  let ?P = "as_continuous ps" and ?R = "as_continuous rs"
  obtain ff where ff: "logical_and2 (isfinite2 ?P) (isfinite2 ?R) = Inr ff"
    "nrows ff = 1" "ncols ff = ncols ?P"
    "samples ff = map2 (\<and>) (map isfinite (samples ?P)) (map isfinite (samples ?R))"
    using logical_and2_one_row [of "isfinite2 ?P" "isfinite2 ?R"] assms(3-5)
    by (auto simp: samples_isfinite2)
  have len: "length (samples ?P) = length (samples ?R)"
    using assms(5) by simp
  have cnt: "count_true2 ff = 0 \<longleftrightarrow> jointly (samples ?P) (samples ?R) = []"
    unfolding count_true2_def flat2_one_row [OF ff(2)] ff(4) length_0_conv
    by (rule filter_snd_empty [OF len])
  have p: "bool_index2 ?P ff = Inr (map fst (jointly (samples ?P) (samples ?R)))"
    using ff assms(3) len by (simp add: bool_index2_def flat2_one_row select_fst)
  have r: "bool_index2 ?R ff = Inr (map snd (jointly (samples ?P) (samples ?R)))"
    using ff assms(4,5) len by (simp add: bool_index2_def flat2_one_row select_snd)
  show ?thesis
    using assms(1-3) ff(1) cnt p r
    by (simp add: corrcoef_rnd_def Let_def np_corrcoef01_rnd_def)
qed

lemma jointly_swap: "jointly B A = map prod.swap (jointly A B)"
proof -
  have "zip B A = map prod.swap (zip A B)"
    by (induction A arbitrary: B) (auto simp: zip_Cons1 zip_Cons split: list.splits)
  then show ?thesis
    by (simp add: jointly_def filter_map comp_def case_prod_unfold conj_commute)
qed

lemma jointly_swap_maps:
  "map fst (jointly B A) = map snd (jointly A B)" "map snd (jointly B A) = map fst (jointly A B)"
  "jointly B A = [] \<longleftrightarrow> jointly A B = []"
  by (simp_all add: jointly_swap [of B A] comp_def)

lemma fmul_commute: "fmul a b = fmul b a"
  by (cases a; cases b) (simp_all add: mult.commute)

lemma dot_rnd_commute: "dot_rnd rnd xs ys = dot_rnd rnd ys xs"
proof -
  have "map2 (fmul_rnd rnd) xs ys = map2 (fmul_rnd rnd) ys xs"
    by (induction xs arbitrary: ys)
       (auto simp: zip_Cons1 fmul_rnd_def fmul_commute split: list.splits)
  then show ?thesis
    by (simp add: dot_rnd_def)
qed

lemma np_cov_rnd_commute:
  "length xs = length ys \<Longrightarrow> np_cov_rnd rnd ys xs = np_cov_rnd rnd xs ys"
  by (simp add: np_cov_rnd_def dot_rnd_commute [of rnd "centred_rnd rnd ys"])

lemma fdiv_fdiv_swap:
  "fdiv (fdiv c (fsqrt u)) (fsqrt v) = fdiv (fdiv c (fsqrt v)) (fsqrt u)"
  by (cases c; cases u; cases v) (auto simp: inf_of_def zero_less_divide_iff divide_less_0_iff)

lemma pearson01_commute:
  "length xs = length ys \<Longrightarrow> pearson01 ys xs = pearson01 xs ys"
  using np_cov_rnd_commute [of xs ys "\<lambda>x. x"]
  by (simp add: pearson01_def np_cov_rnd_exact fdiv_fdiv_swap)

subsection \<open>The two inputs\<close>

lemmas rnd_defs = np_cov_rnd_def dot_rnd_def centred_rnd_def cov_fact_rnd_def
  np_mean_rnd_def fsum_rnd_def fadd_rnd_def fsub_rnd_def fmul_rnd_def fdiv_rnd_def fsqrt_rnd_def
  rounded_def fsub_def

lemma cov_skewed:
  "np_cov_rnd round64 [Fin 0, Fin 3, Fin 6] [Fin 0, Fin 2, Fin 13] = Fin (39 / 2)"
  "np_cov_rnd round64 [Fin 0, Fin 3, Fin 6] [Fin 0, Fin 3, Fin 6] = Fin 9"
  "np_cov_rnd round64 [Fin 0, Fin 2, Fin 13] [Fin 0, Fin 2, Fin 13] = Fin 49"
  "np_cov_rnd round64 [Fin 0, Fin 2, Fin 13] [Fin 0, Fin 3, Fin 6] = Fin (39 / 2)"
  by (simp_all add: rnd_defs)

lemma cov_doubled:
  "np_cov_rnd round64 [Fin 0, Fin 1, Fin 2] [Fin 0, Fin 2, Fin 4] = Fin 2"
  "np_cov_rnd round64 [Fin 0, Fin 1, Fin 2] [Fin 0, Fin 1, Fin 2] = Fin 1"
  "np_cov_rnd round64 [Fin 0, Fin 2, Fin 4] [Fin 0, Fin 2, Fin 4] = Fin 4"
  by (simp_all add: rnd_defs)

lemma jointly_doubled:
  "jointly [Fin 0, NaN, Fin 1, Fin 2] [Fin 0, Fin 5, Fin 2, Fin 4]
     = [(Fin 0, Fin 0), (Fin 1, Fin 2), (Fin 2, Fin 4)]"
  by (simp add: jointly_def)

lemma jointly_skewed:
  "jointly [Fin 0, Fin 3, Fin 6] [Fin 0, Fin 2, Fin 13]
     = [(Fin 0, Fin 0), (Fin 3, Fin 2), (Fin 6, Fin 13)]"
  by (simp add: jointly_def)

lemma pearson_skewed:
  "pearson01_rnd round64 [Fin 0, Fin 3, Fin 6] [Fin 0, Fin 2, Fin 13]
     = Fin (4181913939701175 / 4503599627370496)"
  "pearson01_rnd round64 [Fin 0, Fin 2, Fin 13] [Fin 0, Fin 3, Fin 6]
     = Fin (8363827879402349 / 9007199254740992)"
  unfolding pearson01_rnd_def cov_skewed
  by (simp_all add: fdiv_rnd_def fsqrt_rnd_def rounded_def round64_13_14 round64_39_14
      round64_third clip1_def)

subsection \<open>The claim on the symmetry\<close>

text \<open>
  Claim C8, as amended. For single-channel signals \<open>a\<close> and \<open>b\<close> of equal length,
  \<^verbatim>\<open>corrcoef\<close> in the order \<open>(a, b)\<close> and in the order \<open>(b, a)\<close> uses the same mask
  and returns the integer 0 in both orders when no position is jointly finite. Otherwise
  both results are the same covariance divided by the same two standard deviations and
  clipped, but the divisions come in opposite orders: first by the deviation of the first
  argument, then by that of the second. This holds for every rounding of the arithmetic.
  With exact arithmetic the two orders return the same value.
\<close>

theorem corrcoef_symmetric_up_to_rounding:
  assumes "result a = Some sa" and "result b = Some sb"
    and "nrows (as_continuous sa) = 1" and "nrows (as_continuous sb) = 1"
    and "ncols (as_continuous sa) = ncols (as_continuous sb)"
  shows "corrcoef_rnd rnd result a b =
           Inr (if jointly (samples (as_continuous sa)) (samples (as_continuous sb)) = []
                then PyInt 0
                else Float (clip1 (fdiv_rnd rnd
                  (fdiv_rnd rnd
                     (masked_cov rnd (samples (as_continuous sa)) (samples (as_continuous sb)))
                     (masked_sd_fst rnd (samples (as_continuous sa)) (samples (as_continuous sb))))
                  (masked_sd_snd rnd (samples (as_continuous sa)) (samples (as_continuous sb))))))
       \<and> corrcoef_rnd rnd result b a =
           Inr (if jointly (samples (as_continuous sa)) (samples (as_continuous sb)) = []
                then PyInt 0
                else Float (clip1 (fdiv_rnd rnd
                  (fdiv_rnd rnd
                     (masked_cov rnd (samples (as_continuous sa)) (samples (as_continuous sb)))
                     (masked_sd_snd rnd (samples (as_continuous sa)) (samples (as_continuous sb))))
                  (masked_sd_fst rnd (samples (as_continuous sa)) (samples (as_continuous sb))))))
       \<and> corrcoef result a b = corrcoef result b a"
proof -
  let ?A = "samples (as_continuous sa)" and ?B = "samples (as_continuous sb)"
  have len: "length (map fst (jointly ?A ?B)) = length (map snd (jointly ?A ?B))"
    by simp
  have ab: "corrcoef_rnd r result a b =
      Inr (if jointly ?A ?B = [] then PyInt 0
           else Float (pearson01_rnd r (map fst (jointly ?A ?B)) (map snd (jointly ?A ?B))))" for r
    by (rule corrcoef_rnd_masked [OF assms])
  have ba: "corrcoef_rnd r result b a =
      Inr (if jointly ?A ?B = [] then PyInt 0
           else Float (pearson01_rnd r (map snd (jointly ?A ?B)) (map fst (jointly ?A ?B))))" for r
    using corrcoef_rnd_masked [OF assms(2,1,4,3) assms(5) [symmetric], of r]
    by (simp only: jointly_swap_maps [where A = "samples (as_continuous sa)"
          and B = "samples (as_continuous sb)"])
  have 1: "pearson01_rnd rnd (map fst (jointly ?A ?B)) (map snd (jointly ?A ?B)) =
      clip1 (fdiv_rnd rnd (fdiv_rnd rnd (masked_cov rnd ?A ?B) (masked_sd_fst rnd ?A ?B))
        (masked_sd_snd rnd ?A ?B))"
    by (simp only: pearson01_rnd_def masked_cov_def masked_sd_fst_def masked_sd_snd_def)
  have 2: "pearson01_rnd rnd (map snd (jointly ?A ?B)) (map fst (jointly ?A ?B)) =
      clip1 (fdiv_rnd rnd (fdiv_rnd rnd (masked_cov rnd ?A ?B) (masked_sd_snd rnd ?A ?B))
        (masked_sd_fst rnd ?A ?B))"
    by (simp only: pearson01_rnd_def masked_cov_def masked_sd_fst_def masked_sd_snd_def
        np_cov_rnd_commute [OF len])
  have 3: "corrcoef result a b = corrcoef result b a"
    using ab [of "\<lambda>x. x"] ba [of "\<lambda>x. x"] pearson01_commute [OF len]
    by (simp only: corrcoef_rnd_exact pearson01_rnd_exact)
  show ?thesis
    using ab [of rnd] ba [of rnd] 3 by (simp only: 1 2)
qed

text \<open>
  The theorem in float64 arithmetic at the prediction \<open>[0, NaN, 1, 2]\<close> and the
  response \<open>[0, 5, 2, 4]\<close>: on the three positions left the covariance is 2 and the
  deviations are 1 and 2, and both \<open>(2 / 1) / 2\<close> and \<open>(2 / 2) / 1\<close> are 1.
\<close>

theorem corrcoef_symmetric_up_to_rounding_witness:
  "doubled_ramp ''pred'' = Some (signal_of [Fin 0, NaN, Fin 1, Fin 2]) \<and>
   doubled_ramp ''resp'' = Some (signal_of [Fin 0, Fin 5, Fin 2, Fin 4]) \<and>
   masked_cov round64 [Fin 0, NaN, Fin 1, Fin 2] [Fin 0, Fin 5, Fin 2, Fin 4] = Fin 2 \<and>
   masked_sd_fst round64 [Fin 0, NaN, Fin 1, Fin 2] [Fin 0, Fin 5, Fin 2, Fin 4] = Fin 1 \<and>
   masked_sd_snd round64 [Fin 0, NaN, Fin 1, Fin 2] [Fin 0, Fin 5, Fin 2, Fin 4] = Fin 2 \<and>
   corrcoef_rnd round64 doubled_ramp ''pred'' ''resp'' = Inr (Float (Fin 1)) \<and>
   corrcoef_rnd round64 doubled_ramp ''resp'' ''pred'' = Inr (Float (Fin 1)) \<and>
   corrcoef doubled_ramp ''pred'' ''resp'' = corrcoef doubled_ramp ''resp'' ''pred''"
proof -
  let ?A = "[Fin 0, NaN, Fin 1, Fin 2]" and ?B = "[Fin 0, Fin 5, Fin 2, Fin 4]"
  have p: "doubled_ramp ''pred'' = Some (signal_of ?A)"
    and r: "doubled_ramp ''resp'' = Some (signal_of ?B)"
    by (simp_all add: doubled_ramp_def)
  have c: "masked_cov round64 ?A ?B = Fin 2"
    by (simp add: masked_cov_def jointly_doubled cov_doubled)
  have s1: "masked_sd_fst round64 ?A ?B = Fin 1"
    by (simp add: masked_sd_fst_def jointly_doubled cov_doubled fsqrt_rnd_def rounded_def)
  have s2: "masked_sd_snd round64 ?A ?B = Fin 2"
    by (simp add: masked_sd_snd_def jointly_doubled cov_doubled fsqrt_rnd_def rounded_def)
  note inst = corrcoef_symmetric_up_to_rounding [OF p r, of round64]
  have q: "clip1 (fdiv_rnd round64 (fdiv_rnd round64 (Fin 2) (Fin 1)) (Fin 2)) = Fin 1"
    "clip1 (fdiv_rnd round64 (fdiv_rnd round64 (Fin 2) (Fin 2)) (Fin 1)) = Fin 1"
    by (simp_all add: fdiv_rnd_def rounded_def clip1_def)
  have 1: "corrcoef_rnd round64 doubled_ramp ''pred'' ''resp'' = Inr (Float (Fin 1))"
    using inst by (simp add: c s1 s2 q jointly_doubled)
  have 2: "corrcoef_rnd round64 doubled_ramp ''resp'' ''pred'' = Inr (Float (Fin 1))"
    using inst by (simp add: c s1 s2 q jointly_doubled)
  have 3: "corrcoef doubled_ramp ''pred'' ''resp'' = corrcoef doubled_ramp ''resp'' ''pred''"
    using inst by simp
  from p r c s1 s2 1 2 3 show ?thesis
    by (intro conjI)
qed

text \<open>
  Claim C8 as stated fails in float64 arithmetic. For the prediction \<open>[0, 3, 6]\<close> and
  the response \<open>[0, 2, 13]\<close> the means are 3 and 5 and every difference, product, sum
  and root is exact: the covariance is \<open>19.5\<close> and the deviations are 3 and 7. In the
  order (prediction, response) the result is \<open>(19.5 / 3) / 7\<close>, where only the second
  division rounds, to \<open>4181913939701175 / 2 ^ 52\<close>; in the other order it is
  \<open>(19.5 / 7) / 3\<close>, where both divisions round, to \<open>8363827879402349 / 2 ^ 53\<close>,
  one unit in the last place below.
\<close>

theorem corrcoef_rounding_asymmetry:
  "corrcoef_rnd round64 skewed_pair ''pred'' ''resp''
     = Inr (Float (Fin (4181913939701175 / 4503599627370496))) \<and>
   corrcoef_rnd round64 skewed_pair ''resp'' ''pred''
     = Inr (Float (Fin (8363827879402349 / 9007199254740992))) \<and>
   corrcoef_rnd round64 skewed_pair ''pred'' ''resp'' \<noteq> corrcoef_rnd round64 skewed_pair ''resp'' ''pred''"
proof -
  have 1: "corrcoef_rnd round64 skewed_pair ''pred'' ''resp''
     = Inr (Float (Fin (4181913939701175 / 4503599627370496)))"
    using corrcoef_rnd_masked [of skewed_pair "''pred''" "signal_of [Fin 0, Fin 3, Fin 6]"
        "''resp''" "signal_of [Fin 0, Fin 2, Fin 13]" round64]
    by (simp add: skewed_pair_def jointly_skewed pearson_skewed)
  have sw: "jointly [Fin 0, Fin 2, Fin 13] [Fin 0, Fin 3, Fin 6]
     = [(Fin 0, Fin 0), (Fin 2, Fin 3), (Fin 13, Fin 6)]"
    by (simp add: jointly_def)
  have 2: "corrcoef_rnd round64 skewed_pair ''resp'' ''pred''
     = Inr (Float (Fin (8363827879402349 / 9007199254740992)))"
    using corrcoef_rnd_masked [of skewed_pair "''resp''" "signal_of [Fin 0, Fin 2, Fin 13]"
        "''pred''" "signal_of [Fin 0, Fin 3, Fin 6]" round64]
    by (simp add: skewed_pair_def sw pearson_skewed)
  show ?thesis
    unfolding 1 2 by simp
qed

section \<open>Properties of \<^verbatim>\<open>r_floor\<close>\<close>

lemma advance_advance [simp]: "advance a (advance b g) = advance (a + b) g"
  by (simp add: advance_def ac_simps)

lemma advance_0 [simp]: "advance 0 g = g"
  by (simp add: advance_def)

lemma uniform01_range: "0 \<le> uniform01 k \<and> uniform01 k < 1"
  by (simp add: uniform01_def)

lemma rand_index_less:
  assumes "0 < m"
  shows "nat \<lfloor>uniform01 k * real m\<rfloor> < m"
proof -
  have "uniform01 k * real m < real m"
    using assms uniform01_range [of k] by simp
  moreover have "0 \<le> uniform01 k * real m"
    using uniform01_range [of k] by simp
  ultimately show ?thesis
    by (simp add: floor_less_iff nat_less_iff)
qed

lemma rand_indices_eq:
  "rand_indices n m g = (map (\<lambda>i. nat \<lfloor>uniform01 (g i) * real m\<rfloor>) [0..<n], advance n g)"
  by (simp add: rand_indices_def rand_def comp_def)

lemma take_idx_resample:
  assumes "0 < length V \<or> n = 0"
  shows "take_idx V (map (\<lambda>i. nat \<lfloor>uniform01 (g i) * real (length V)\<rfloor>) [0..<n])
         = Inr (resample V n g)"
  using assms
  by (auto simp: take_idx_def resample_def list_all_iff rand_index_less comp_def)

lemma length_resample [simp]: "length (resample V n g) = n"
  by (simp add: resample_def)

lemma shuffle_step:
  assumes "length V1 = length V2" and "0 < length V1 \<or> n = 0"
  shows "shuffle_loop V1 V2 n (rr # rrs) (rf, advance (2 * n * k) g) =
         shuffle_loop V1 V2 n rrs (rf[rr := shuffle_trial V1 V2 n g k], advance (2 * n * Suc k) g)"
proof -
  let ?g0 = "advance (2 * n * k) g" and ?g1 = "advance (2 * n * k + n) g"
  have 2: "0 < length V2 \<or> n = 0" using assms by simp
  have r1: "rand_indices n (length V1) ?g0 =
      (map (\<lambda>i. nat \<lfloor>uniform01 (?g0 i) * real (length V1)\<rfloor>) [0..<n], ?g1)"
    by (simp add: rand_indices_eq add.commute)
  have r2: "rand_indices n (length V2) ?g1 =
      (map (\<lambda>i. nat \<lfloor>uniform01 (?g1 i) * real (length V2)\<rfloor>) [0..<n],
       advance (2 * n * Suc k) g)"
    by (simp add: rand_indices_eq add.commute)
  have t1: "take_idx V1 (map (\<lambda>i. nat \<lfloor>uniform01 (?g0 i) * real (length V1)\<rfloor>) [0..<n])
            = Inr (resample V1 n ?g0)"
    by (rule take_idx_resample [OF assms(2)])
  have t2: "take_idx V2 (map (\<lambda>i. nat \<lfloor>uniform01 (?g1 i) * real (length V2)\<rfloor>) [0..<n])
            = Inr (resample V2 n ?g1)"
    by (rule take_idx_resample [OF 2])
  have c: "np_corrcoef01 (resample V1 n ?g0) (resample V2 n ?g1) = Inr (shuffle_trial V1 V2 n g k)"
    by (simp add: np_corrcoef01_def shuffle_trial_def)
  show ?thesis
    by (simp only: shuffle_loop.simps r1 r2 prod.case t1 t2 c and_then_Inr)
qed

lemma shuffle_loop_upt:
  assumes "length V1 = length V2" and "0 < length V1 \<or> n = 0" and "K \<le> length rf" and "k \<le> K"
  shows "shuffle_loop V1 V2 n [k..<K] (rf, advance (2 * n * k) g) =
         Inr (take k rf @ map (shuffle_trial V1 V2 n g) [k..<K] @ drop K rf,
              advance (2 * n * K) g)"
  using assms(3,4)
proof (induction "K - k" arbitrary: k rf)
  case 0
  then show ?case by simp
next
  case (Suc j)
  then have kK: "k < K" and j: "j = K - Suc k" by simp_all
  have upt: "[k..<K] = k # [Suc k..<K]"
    using kK by (simp add: upt_rec)
  have len: "K \<le> length (rf[k := shuffle_trial V1 V2 n g k])"
    using Suc.prems by simp
  have "shuffle_loop V1 V2 n [k..<K] (rf, advance (2 * n * k) g) =
        shuffle_loop V1 V2 n [Suc k..<K]
          (rf[k := shuffle_trial V1 V2 n g k], advance (2 * n * Suc k) g)"
    unfolding upt by (rule shuffle_step [OF assms(1,2)])
  also have "\<dots> = Inr (take (Suc k) (rf[k := shuffle_trial V1 V2 n g k])
                        @ map (shuffle_trial V1 V2 n g) [Suc k..<K]
                        @ drop K (rf[k := shuffle_trial V1 V2 n g k]),
                      advance (2 * n * K) g)"
    using Suc.hyps(1) [OF j len] kK by simp
  also have "take (Suc k) (rf[k := shuffle_trial V1 V2 n g k]) = take k rf @ [shuffle_trial V1 V2 n g k]"
    using kK Suc.prems by (simp add: take_Suc_conv_app_nth)
  also have "drop K (rf[k := shuffle_trial V1 V2 n g k]) = drop K rf"
    using kK by simp
  finally show ?case
    by (simp add: upt)
qed

lemma shuffle_loop_all:
  assumes "length V1 = length V2" and "0 < length V1 \<or> n = 0"
  shows "shuffle_loop V1 V2 n [0..<length rf] (rf, g) =
         Inr (map (shuffle_trial V1 V2 n g) [0..<length rf], advance (2 * n * length rf) g)"
  using shuffle_loop_upt [OF assms, of "length rf" rf 0 g] by simp

lemma map_insort_key: "map f (insort_key f x ys) = insort (f x) (map f ys)"
  by (induction ys) simp_all

lemma map_sort_key: "map f (sort_key f xs) = sort (map f xs)"
  by (induction xs) (simp_all add: map_insort_key)

lemma sort_key_Nil_iff [simp]: "sort_key f xs = [] \<longleftrightarrow> xs = []"
  using length_sort [of f xs] by (metis length_0_conv)

lemma idx95_less: "0 < len \<Longrightarrow> idx95 len < len"
  unfolding idx95_def by linarith

lemma finite_is_Fin: "isfinite x \<Longrightarrow> x = Fin (fin_val x)"
  by (cases x) simp_all

lemma percentile95_eq:
  "(let rf = sort_finite results in
    if length rf \<noteq> 0 then Float (rf ! idx95 (length rf)) else PyInt 0) = percentile95 results"
proof (cases "filter isfinite results = []")
  case True
  then show ?thesis
    by (simp add: sort_finite_def percentile95_def)
next
  case False
  let ?rf = "sort_finite results"
  have len: "0 < length ?rf"
    using False by (simp add: sort_finite_def)
  then have i: "idx95 (length ?rf) < length ?rf"
    by (rule idx95_less)
  then have "?rf ! idx95 (length ?rf) \<in> set (filter isfinite results)"
    using nth_mem [OF i] by (simp add: sort_finite_def)
  then have "?rf ! idx95 (length ?rf) = Fin (fin_val (?rf ! idx95 (length ?rf)))"
    using finite_is_Fin by simp
  also have "fin_val (?rf ! idx95 (length ?rf)) = map fin_val ?rf ! idx95 (length ?rf)"
    using i by simp
  also have "map fin_val ?rf = sort (map fin_val (filter isfinite results))"
    by (simp add: sort_finite_def map_sort_key)
  finally show ?thesis
    using False len
    by (simp add: percentile95_def Let_def idx95_def sort_finite_def mult.commute)
qed

lemma uniform01_cycle: "uniform01 (cycle_rng k) * 4 = real (k mod 4)"
proof -
  have "(k mod 4) * 2 ^ 51 < (4::nat) * 2 ^ 51"
    by (intro mult_strict_right_mono) simp_all
  then have "(k mod 4) * 2 ^ 51 mod 2 ^ 53 = (k mod 4) * (2::nat) ^ 51"
    by simp
  then show ?thesis
    by (simp add: uniform01_def cycle_rng_def)
qed

lemma resample_cycle:
  assumes "length V = 4" and "j mod 4 = 0"
  shows "resample V 4 (advance j cycle_rng) = V"
proof -
  have "(i + j) mod 4 = i" if "i < 4" for i
    using that assms(2) by (metis add.right_neutral mod_add_right_eq mod_less)
  then have "nat \<lfloor>uniform01 (cycle_rng (i + j)) * real (length V)\<rfloor> = i" if "i < 4" for i
    using that assms(1) uniform01_cycle [of "i + j"] by simp
  then have "resample V 4 (advance j cycle_rng) = map (\<lambda>i. V ! i) [0..<4]"
    unfolding resample_def advance_def
    by (intro map_cong) auto
  also have "\<dots> = V"
    using map_nth [of V] assms(1) by simp
  finally show ?thesis .
qed

lemma pearson_scenario_B:
  "pearson01 [Fin 1, Fin 2, Fin 4, Fin 5] [Fin 5, Fin 4, Fin 2, Fin 1] = Fin (- 1)"
  using corr_scenario_B by (simp add: corr_masked_def jointly_def)

lemma trial_cycle:
  "shuffle_trial [Fin 1, Fin 2, Fin 4, Fin 5] [Fin 5, Fin 4, Fin 2, Fin 1] 4 cycle_rng rr = Fin (- 1)"
proof -
  have "(2 * 4 * rr) mod 4 = 0" "(2 * 4 * rr + 4) mod 4 = 0"
    by simp_all
  then show ?thesis
    unfolding shuffle_trial_def
    by (simp only: resample_cycle length_Cons list.size pearson_scenario_B) 
qed

lemma percentile95_constant: "percentile95 (replicate 1000 (Fin a)) = Float (Fin a)"
proof -
  have "sort (replicate 1000 a) = replicate 1000 a"
    by (simp add: sort_key_id_if_sorted)
  moreover have "nat \<lfloor>95 / 100 * real (1000::nat)\<rfloor> = 950"
    by simp
  ultimately show ?thesis
    by (simp add: percentile95_def Let_def)
qed

lemma r_floor_spec_cycle:
  "r_floor_spec [Fin 1, Fin 2, NaN, Fin 4, Fin 5] [Fin 5, Fin 4, Fin 3, Fin 2, Fin 1] cycle_rng
   = Float (Fin (- 1))"
proof -
  have "map (shuffle_trial [Fin 1, Fin 2, Fin 4, Fin 5] [Fin 5, Fin 4, Fin 2, Fin 1] 4 cycle_rng)
          [0..<1000] = map (\<lambda>rr. Fin (- 1)) [0..<1000]"
    by (rule map_cong [OF refl]) (rule trial_cycle)
  also have "\<dots> = replicate (length [0..<1000]) (Fin (- 1))"
    by (rule map_replicate_const)
  also have "length [0..<1000] = 1000"
    by (simp only: length_upt diff_zero)
  finally have reps:
    "map (shuffle_trial [Fin 1, Fin 2, Fin 4, Fin 5] [Fin 5, Fin 4, Fin 2, Fin 1] 4 cycle_rng)
          [0..<1000] = replicate 1000 (Fin (- 1))" .
  have V: "map fst (jointly [Fin 1, Fin 2, NaN, Fin 4, Fin 5] [Fin 5, Fin 4, Fin 3, Fin 2, Fin 1])
             = [Fin 1, Fin 2, Fin 4, Fin 5]"
    "map snd (jointly [Fin 1, Fin 2, NaN, Fin 4, Fin 5] [Fin 5, Fin 4, Fin 3, Fin 2, Fin 1])
             = [Fin 5, Fin 4, Fin 2, Fin 1]"
    by (simp_all add: jointly_def)
  have n: "min 500 (length [Fin 1, Fin 2, Fin 4, Fin 5]) = (4::nat)"
    by simp
  show ?thesis
    unfolding r_floor_spec_def Let_def V n reps by (rule percentile95_constant)
qed

text \<open>
  Claim C3. For a single-channel prediction and response of equal length, \<^verbatim>\<open>r_floor\<close>
  drops the positions that are not jointly finite, resamples with
  \<open>n = min 500 (len valid)\<close>, fills all 1000 entries of \<open>rf\<close> with the correlations of
  1000 trials, and returns the finite results' entry at the index \<open>floor (0.95 * count)\<close>
  of their ascending order, or 0 when no result is finite. Each trial takes \<open>2 * n\<close>
  draws from the random source.
\<close>

theorem r_floor_percentile:
  assumes "result pred_name = Some ps" and "result resp_name = Some rs"
    and "nrows (as_continuous ps) = 1" and "nrows (as_continuous rs) = 1"
    and "ncols (as_continuous ps) = ncols (as_continuous rs)"
  shows "r_floor result pred_name resp_name g =
           Inr (r_floor_spec (samples (as_continuous ps)) (samples (as_continuous rs)) g,
                advance (2000 * min 500 (length (jointly (samples (as_continuous ps))
                                                          (samples (as_continuous rs))))) g)"
proof -
  let ?P = "as_continuous ps" and ?R = "as_continuous rs"
  let ?V1 = "map fst (jointly (samples ?P) (samples ?R))"
  let ?V2 = "map snd (jointly (samples ?P) (samples ?R))"
  let ?n = "min 500 (length ?V1)"
  obtain ff where ff: "logical_and2 (isfinite2 ?P) (isfinite2 ?R) = Inr ff"
    "nrows ff = 1" "ncols ff = ncols ?P"
    "samples ff = map2 (\<and>) (map isfinite (samples ?P)) (map isfinite (samples ?R))"
    using logical_and2_one_row [of "isfinite2 ?P" "isfinite2 ?R"] assms(3-5)
    by (auto simp: samples_isfinite2)
  have len: "length (samples ?P) = length (samples ?R)"
    using assms(5) by simp
  have p: "bool_index2 ?P ff = Inr ?V1"
    using ff assms(3) len by (simp add: bool_index2_def flat2_one_row select_fst)
  have r: "bool_index2 ?R ff = Inr ?V2"
    using ff assms(4,5) len by (simp add: bool_index2_def flat2_one_row select_snd)
  have n: "(if 500 < length ?V1 then 500 else length ?V1) = ?n"
    by (simp add: min_def)
  have loop: "shuffle_loop ?V1 ?V2 ?n [0..<length (replicate 1000 (Fin 0))]
                (replicate 1000 (Fin 0), g)
              = Inr (map (shuffle_trial ?V1 ?V2 ?n g) [0..<length (replicate 1000 (Fin 0 :: f64))],
                     advance (2 * ?n * length (replicate 1000 (Fin 0 :: f64))) g)"
    by (rule shuffle_loop_all) auto
  have "r_floor result pred_name resp_name g =
          Inr (let rf = sort_finite (map (shuffle_trial ?V1 ?V2 ?n g) [0..<1000]) in
               if length rf \<noteq> 0 then Float (rf ! idx95 (length rf)) else PyInt 0,
               advance (2000 * ?n) g)"
    using assms(1-3) ff(1) p r loop
    by (simp add: r_floor_def n Let_def del: length_map length_replicate) (simp add: Let_def)
  then show ?thesis
    by (simp only: percentile95_eq) (simp add: r_floor_spec_def Let_def)
qed

text \<open>
  The theorem at the prediction \<open>[1, 2, NaN, 4, 5]\<close> and the response
  \<open>[5, 4, 3, 2, 1]\<close> with the periodic random source: four positions are valid, every
  trial draws the indices \<open>0, 1, 2, 3\<close> for both arrays and correlates at \<open>-1\<close>, and
  the entry 950 of the 1000 sorted results is \<open>-1\<close>.
\<close>

theorem r_floor_percentile_witness:
  "scenario_B ''pred'' = Some (signal_of [Fin 1, Fin 2, NaN, Fin 4, Fin 5]) \<and>
   scenario_B ''resp'' = Some (signal_of [Fin 5, Fin 4, Fin 3, Fin 2, Fin 1]) \<and>
   r_floor scenario_B ''pred'' ''resp'' cycle_rng = Inr (Float (Fin (- 1)), advance 8000 cycle_rng)"
  using r_floor_percentile [of scenario_B "''pred''" "signal_of [Fin 1, Fin 2, NaN, Fin 4, Fin 5]"
        "''resp''" "signal_of [Fin 5, Fin 4, Fin 3, Fin 2, Fin 1]" cycle_rng]
  by (simp add: scenario_B_def r_floor_spec_cycle) (simp add: jointly_def)

section \<open>Properties of \<^verbatim>\<open>r_ceiling\<close>\<close>

lemma length_jointly_chan0:
  assumes "shape2 X = shape2 d"
  shows "length (jointly (chan0 X i) (chan0 d j))
       = length (filter (\<lambda>t. isfinite (item3 X i 0 t) \<and> isfinite (item3 d j 0 t)) [0..<shape2 d])"
proof -
  have "zip (chan0 X i) (chan0 d j) = map (\<lambda>t. (item3 X i 0 t, item3 d j 0 t)) [0..<shape2 d]"
    using assms by (simp add: chan0_def zip_map_map zip_same_conv_map)
  then show ?thesis
    by (simp add: jointly_def filter_map comp_def)
qed

lemma length_last_valid: "shape2 X = shape2 d \<Longrightarrow> length (last_valid X d) = sample_count X d"
  by (simp add: last_valid_def sample_count_def length_jointly_chan0)

lemma repeat_loop_run:
  assumes "0 < shape1 X" and "0 < shape0 d" and "0 < shape1 d" and "shape2 X = shape2 d"
    and "\<forall>nn \<in> set nns. nn < shape0 X"
  shows "repeat_loop X d nns (rs, v) =
           Inr (rs @ map (\<lambda>nn. corr_masked (chan0 X nn) (chan0 d 0)) nns,
                if nns = [] then v
                else Some (map fst (jointly (chan0 X (last nns)) (chan0 d 0))))"
  using assms(5)
proof (induction nns arbitrary: rs v)
  case Nil
  then show ?case by simp
next
  case (Cons nn nns)
  then show ?case
    using assms(1-4)
    by (simp add: row3_chan0 masked_pair_same np_corrcoef01_masked)
qed

lemma repeat_loop_cong:
  "row3 d 0 0 = row3 d' 0 0 \<Longrightarrow> repeat_loop X d nns s = repeat_loop X d' nns s"
  by (induction X d nns s rule: repeat_loop.induct) (simp_all cong: if_cong)

lemma flat3_nonempty: "flat3 d \<noteq> [] \<Longrightarrow> 0 < shape0 d \<and> 0 < shape1 d \<and> 0 < shape2 d"
  by (auto simp: flat3_def)

lemma count_finite3_pos:
  assumes "0 < count_finite3 d"
  shows "0 < shape0 d \<and> 0 < shape1 d"
proof -
  have "flat3 d \<noteq> []"
    using assms by (auto simp: count_finite3_def)
  then show ?thesis
    using flat3_nonempty by blast
qed

lemma np_mean_Nil [simp]: "np_mean [] = NaN"
  by (simp add: np_mean_def fsum_def)

lemma r_single_positive:
  assumes "r_single X N g = Inr (rac, g')" and "gt_zero rac"
  shows "shape1 X = 1 \<and> 3 \<le> shape0 X \<and> 2 \<le> N
       \<and> rac = Float (floor05 (np_mean (sampled_corrs X N g)))
       \<and> g' = advance (shape0 X choose 2) g"
proof -
  have ch: "shape1 X \<le> 1"
    using assms(1) by (cases "1 < shape1 X") (simp_all add: r_single_multi)
  have rep: "2 \<le> shape0 X"
  proof (rule ccontr)
    assume "\<not> 2 \<le> shape0 X"
    with ch assms(1) have "rac = PyInt 0" by (simp add: r_single_few_repeats)
    with assms(2) show False by (simp add: gt_zero_def)
  qed
  have n1: "effective_N X N \<noteq> 1"
    using assms(1) r_single_error_iff [of X N g] ch by auto
  have n0: "0 \<le> effective_N X N"
    using assms(1) r_single_negative [OF ch rep, of N g] by (cases "effective_N X N < 0") auto
  have n2: "effective_N X N \<noteq> 0"
  proof
    assume z: "effective_N X N = 0"
    with ch have "shape1 X = 1 \<or> (shape1 X = 0 \<and> effective_N X N = 0)" by auto
    from r_single_value [OF this rep n1 n0, of g] assms(1)
    have "rac = Float (floor05 (np_mean (sampled_corrs X N g)))" by simp
    then have "rac = Float NaN" by (simp add: sampled_corrs_def z)
    with assms(2) show False by (simp add: gt_zero_def)
  qed
  from n0 n1 n2 have big: "2 \<le> effective_N X N" by linarith
  have one: "shape1 X = 1"
    using r_single_no_channel [OF _ rep big, of g] assms(1) ch by (cases "shape1 X = 0") auto
  from r_single_value [OF disjI1 [OF one] rep n1 n0, of g] assms(1)
  have val: "rac = Float (floor05 (np_mean (sampled_corrs X N g)))"
    "g' = advance (shape0 X choose 2) g" by simp_all
  have "2 \<le> N" "2 \<le> shape0 X choose 2"
    using big by (simp_all add: effective_N_def)
  moreover have "3 \<le> shape0 X"
  proof (rule ccontr)
    assume "\<not> 3 \<le> shape0 X"
    with rep have "shape0 X = 2" by simp
    with \<open>2 \<le> shape0 X choose 2\<close> show False by simp
  qed
  ultimately show ?thesis using one val by simp
qed

lemma epoch_body_contributes:
  assumes fin: "0 < count_finite3 d"
    and rac: "r_single (extract_epoch k) N g = Inr (rac, g')" and pos: "gt_zero rac"
    and len: "shape2 (extract_epoch k) = shape2 d"
  shows "epoch_body extract_epoch N (k, d) (vars, g) =
           Inr (\<lparr>rnorm_c = Float (fadd (to_f64 (rnorm_c vars))
                   (fmul (fdiv (epoch_rs (extract_epoch k) d) (fsqrt (to_f64 rac)))
                         (Fin (real (sample_count (extract_epoch k) d))))),
                 n_total = n_total vars + int (sample_count (extract_epoch k) d),
                 X1_var = Some (last_valid (extract_epoch k) d)\<rparr>, g')"
proof -
  let ?X = "extract_epoch k"
  from r_single_positive [OF rac pos] have X: "0 < shape1 ?X" "0 < shape0 ?X" by simp_all
  from count_finite3_pos [OF fin] have d: "0 < shape0 d" "0 < shape1 d" by simp_all
  have loop: "repeat_loop ?X d [0..<shape0 ?X] ([], X1_var vars) =
      Inr (map (\<lambda>nn. corr_masked (chan0 ?X nn) (chan0 d 0)) [0..<shape0 ?X],
           Some (last_valid ?X d))"
    using repeat_loop_run [OF X(1) d len, of "[0..<shape0 ?X]" "[]" "X1_var vars"] X(2)
    by (simp add: last_valid_def)
  show ?thesis
    using fin rac pos
    by (simp add: epoch_body_def Let_def loop epoch_rs_def length_last_valid [OF len])
qed

lemma count_pred_ramp: "count_finite3 pred_ramp = 4"
  by (simp add: count_finite3_def flat3_def pred_ramp_def upt_rec)

lemma count_pred_twice: "count_finite3 pred_twice = 8"
  by (simp add: count_finite3_def flat3_def pred_twice_def upt_rec)

lemma count_pred_first_only: "count_finite3 pred_first_only = 1"
  by (simp add: count_finite3_def flat3_def pred_first_only_def upt_rec)

lemma chan0_pred_ramp: "chan0 pred_ramp 0 = [Fin 0, Fin 1, Fin 2, Fin 3]"
  by (simp add: chan0_def pred_ramp_def upt_rec)

lemma chan0_pred_twice: "chan0 pred_twice 0 = [Fin 0, Fin 1, Fin 2, Fin 3]"
  by (simp add: chan0_def pred_twice_def upt_rec)

lemma chan0_pred_first_only: "chan0 pred_first_only 0 = [Fin 1, NaN, NaN, NaN]"
  by (simp add: chan0_def pred_first_only_def upt_rec)

lemma r_single_ramp: "r_single ramp_raster 100 g = Inr (Float (Fin 1), advance 3 g)"
proof -
  have "effective_N ramp_raster 100 = 3"
    by (simp add: effective_N_def)
  then have "r_single ramp_raster 100 g =
      Inr (Float (floor05 (np_mean (sampled_corrs ramp_raster 100 g))),
           advance (shape0 ramp_raster choose 2) g)"
    by (intro r_single_value) simp_all
  then show ?thesis
    by (simp add: sampled_ramp np_mean_def fsum_def floor05_def)
qed

lemma centred_0123: "centred [Fin 1, Fin 2, Fin 3] = [Fin (- 1), Fin 0, Fin 1]"
  using centred_ramp [of 0] by simp

lemma corr_ramp_pred: "corr_masked (chan0 ramp_raster i) (chan0 pred_ramp 0) = Fin 1"
  by (simp add: chan0_ramp chan0_pred_ramp corr_masked_def jointly_def pearson01_def np_cov_def
      centred_ramp centred_0123 dot_def fsum_def cov_fact_def clip1_def)

lemma epoch_rs_ramp: "epoch_rs ramp_raster pred_ramp = Fin 1"
  by (simp add: epoch_rs_def corr_ramp_pred np_mean_def fsum_def upt_rec)

lemma sample_count_ramp: "sample_count ramp_raster pred_ramp = 3"
  by (simp add: sample_count_def ramp_raster_def pred_ramp_def upt_rec)

lemma last_valid_ramp: "last_valid ramp_raster pred_ramp = [Fin 3, Fin 4, Fin 5]"
  by (simp add: last_valid_def chan0_ramp chan0_pred_ramp jointly_def)

lemma corr_ramp_first_only: "corr_masked (chan0 ramp_raster i) (chan0 pred_first_only 0) = NaN"
  by (simp add: chan0_ramp chan0_pred_first_only pearson_defs)

lemma epoch_rs_first_only: "epoch_rs ramp_raster pred_first_only = NaN"
  by (simp add: epoch_rs_def corr_ramp_first_only np_mean_def fsum_def upt_rec)

lemma sample_count_first_only: "sample_count ramp_raster pred_first_only = 0"
  by (simp add: sample_count_def ramp_raster_def pred_first_only_def upt_rec)

lemma last_valid_first_only: "last_valid ramp_raster pred_first_only = []"
  by (simp add: last_valid_def chan0_ramp chan0_pred_first_only jointly_def)

lemma logical_and1_error: "logical_and1 a b = Inl e \<Longrightarrow> e \<noteq> ZeroDivisionError"
  by (auto simp: logical_and1_def split: option.splits)

lemma bool_index1_error: "bool_index1 A M = Inl e \<Longrightarrow> e \<noteq> ZeroDivisionError"
  by (auto simp: bool_index1_def split: if_splits)

lemma masked_pair_error: "masked_pair a b = Inl e \<Longrightarrow> e \<noteq> ZeroDivisionError"
  by (auto simp: masked_pair_def and_then_eq_Inl dest: logical_and1_error bool_index1_error)

lemma row3_error: "row3 X i j = Inl e \<Longrightarrow> e \<noteq> ZeroDivisionError"
  by (auto simp: row3_def split: if_splits)

lemma pair_corr_error: "pair_corr X pairs sidx nn = Inl e \<Longrightarrow> e \<noteq> ZeroDivisionError"
  by (auto simp: pair_corr_def and_then_eq_Inl split_beta
      dest: row3_error masked_pair_error np_corrcoef01_error)

lemma r_single_error: "r_single X N g = Inl e \<Longrightarrow> e \<noteq> ZeroDivisionError"
  by (auto simp: r_single_def Let_def multi_channel_def two_repeats_def and_then_eq_Inl split_beta
      split: if_splits dest!: mapM_Inl pair_corr_error)

lemma repeat_loop_mismatch:
  assumes "0 < shape0 X" and "0 < shape1 X" and "0 < shape0 d" and "0 < shape1 d"
    and "shape2 X \<noteq> shape2 d"
  shows "\<exists>e. repeat_loop X d [0..<shape0 X] s = Inl e \<and> e \<noteq> ZeroDivisionError"
proof -
  obtain rs v where s: "s = (rs, v)" by (cases s)
  have upt: "[0..<shape0 X] = 0 # [1..<shape0 X]"
    using assms(1) by (simp add: upt_rec)
  obtain e where e: "masked_pair (chan0 X 0) (chan0 d 0) = Inl e"
    using masked_pair_diff [of "chan0 X 0" "chan0 d 0"] assms(5) by auto
  then have "e \<noteq> ZeroDivisionError" by (rule masked_pair_error)
  moreover have "repeat_loop X d [0..<shape0 X] s = Inl e"
    unfolding upt s using assms(1-4) e by (simp add: row3_chan0)
  ultimately show ?thesis by blast
qed

lemma epoch_body_mismatch:
  assumes "0 < count_finite3 d" and "r_single (ee k) N g = Inr (rac, g')" and "gt_zero rac"
    and "shape2 (ee k) \<noteq> shape2 d"
  shows "\<exists>e. epoch_body ee N (k, d) (vars, g) = Inl e \<and> e \<noteq> ZeroDivisionError"
proof -
  from r_single_positive [OF assms(2,3)] have X: "0 < shape0 (ee k)" "0 < shape1 (ee k)" by simp_all
  from count_finite3_pos [OF assms(1)] have d: "0 < shape0 d" "0 < shape1 d" by simp_all
  obtain e where "repeat_loop (ee k) d [0..<shape0 (ee k)] ([], X1_var vars) = Inl e"
    "e \<noteq> ZeroDivisionError"
    using repeat_loop_mismatch [OF X d assms(4)] by blast
  then show ?thesis
    using assms(1-3) by (simp add: epoch_body_def Let_def)
qed

lemma epoch_body_skip_finite:
  "count_finite3 d = 0 \<Longrightarrow> epoch_body ee N (k, d) (vars, g) = Inr (vars, g)"
  by (simp add: epoch_body_def)

lemma epoch_body_skip_rac:
  "0 < count_finite3 d \<Longrightarrow> r_single (ee k) N g = Inr (rac, g') \<Longrightarrow> \<not> gt_zero rac \<Longrightarrow>
   epoch_body ee N (k, d) (vars, g) = Inr (vars, g')"
  by (simp add: epoch_body_def Let_def)

lemma epoch_body_raises:
  "0 < count_finite3 d \<Longrightarrow> r_single (ee k) N g = Inl e \<Longrightarrow>
   epoch_body ee N (k, d) (vars, g) = Inl e"
  by (simp add: epoch_body_def Let_def)

lemma epoch_loop_raises:
  assumes "epoch_terms ee N fp g = None"
  shows "\<exists>e. epoch_loop ee N fp (vars, g) = Inl e \<and> e \<noteq> ZeroDivisionError"
  using assms
proof (induction fp arbitrary: vars g)
  case Nil
  then show ?case by simp
next
  case (Cons kd fp)
  obtain k d where kd: "kd = (k, d)" by (cases kd)
  show ?case
  proof (cases "count_finite3 d = 0")
    case True
    with Cons.prems kd have "epoch_terms ee N fp g = None" by simp
    from Cons.IH [OF this, of vars] True kd show ?thesis
      by (simp add: epoch_body_skip_finite)
  next
    case False
    then have fin: "0 < count_finite3 d" by simp
    show ?thesis
    proof (cases "r_single (ee k) N g")
      case (Inl e)
      with fin kd r_single_error [OF Inl] show ?thesis
        by (simp add: epoch_body_raises)
    next
      case (Inr p)
      obtain rac g' where p: "p = (rac, g')" by (cases p)
      note rs = Inr [unfolded p]
      show ?thesis
      proof (cases "gt_zero rac")
        case False
        with Cons.prems kd fin rs have "epoch_terms ee N fp g' = None" by simp
        from Cons.IH [OF this, of vars] kd show ?thesis
          by (simp add: epoch_body_skip_rac [where ee = ee and k = k, OF fin rs False])
      next
        case True
        show ?thesis
        proof (cases "shape2 (ee k) = shape2 d")
          case False
          from epoch_body_mismatch [where ee = ee and k = k, OF fin rs True False, of vars] kd show ?thesis
            by auto
        next
          case same: True
          with Cons.prems kd fin rs True have "epoch_terms ee N fp g' = None"
            by (simp split: option.splits)
          from Cons.IH [OF this] kd show ?thesis
            by (simp add: epoch_body_contributes [where extract_epoch = ee and k = k, OF fin rs True same])
        qed
      qed
    qed
  qed
qed

lemma epoch_loop_completes:
  assumes "epoch_terms ee N fp g = Some (ts, g')"
  shows "\<exists>V. epoch_loop ee N fp (vars, g) = Inr (V, g')
           \<and> (ts = [] \<longrightarrow> V = vars)
           \<and> (ts \<noteq> [] \<longrightarrow>
                rnorm_c V = Float (foldl fadd (to_f64 (rnorm_c vars)) (map (\<lambda>(q, c). fmul q (Fin (real c))) ts)))
           \<and> n_total V = n_total vars + int (sum_list (map snd ts))"
  using assms
proof (induction fp arbitrary: vars g ts)
  case Nil
  then show ?case by simp
next
  case (Cons kd fp)
  obtain k d where kd: "kd = (k, d)" by (cases kd)
  show ?case
  proof (cases "count_finite3 d = 0")
    case True
    with Cons.prems kd have "epoch_terms ee N fp g = Some (ts, g')" by simp
    from Cons.IH [OF this, of vars] True kd show ?thesis
      by (simp add: epoch_body_skip_finite)
  next
    case False
    then have fin: "0 < count_finite3 d" by simp
    show ?thesis
    proof (cases "r_single (ee k) N g")
      case (Inl e)
      with Cons.prems kd fin show ?thesis by simp
    next
      case (Inr p)
      obtain rac g1 where p: "p = (rac, g1)" by (cases p)
      note rs = Inr [unfolded p]
      show ?thesis
      proof (cases "gt_zero rac")
        case False
        with Cons.prems kd fin rs have "epoch_terms ee N fp g1 = Some (ts, g')" by simp
        from Cons.IH [OF this, of vars] kd show ?thesis
          by (simp add: epoch_body_skip_rac [where ee = ee and k = k, OF fin rs False])
      next
        case True
        from Cons.prems kd fin rs True have same: "shape2 (ee k) = shape2 d"
          by (simp split: if_splits)
        let ?t = "(fdiv (epoch_rs (ee k) d) (fsqrt (to_f64 rac)), sample_count (ee k) d)"
        from Cons.prems kd fin rs True same obtain ts' where
          ts': "epoch_terms ee N fp g1 = Some (ts', g')" and ts: "ts = ?t # ts'"
          by (auto split: option.splits)
        let ?V1 = "\<lparr>rnorm_c = Float (fadd (to_f64 (rnorm_c vars)) (fmul (fst ?t) (Fin (real (snd ?t))))),
                   n_total = n_total vars + int (sample_count (ee k) d),
                   X1_var = Some (last_valid (ee k) d)\<rparr>"
        have body: "epoch_body ee N (k, d) (vars, g) = Inr (?V1, g1)"
          using epoch_body_contributes [where extract_epoch = ee and k = k, OF fin rs True same, of vars]
          by simp
        from Cons.IH [OF ts', of ?V1] obtain V where
          V: "epoch_loop ee N fp (?V1, g1) = Inr (V, g')" "ts' = [] \<longrightarrow> V = ?V1"
            "ts' \<noteq> [] \<longrightarrow> rnorm_c V = Float (foldl fadd (to_f64 (rnorm_c ?V1)) (map (\<lambda>(q, c). fmul q (Fin (real c))) ts'))"
            "n_total V = n_total ?V1 + int (sum_list (map snd ts'))"
          by blast
        have "rnorm_c V = Float (foldl fadd (to_f64 (rnorm_c vars)) (map (\<lambda>(q, c). fmul q (Fin (real c))) ts))"
          using V(2,3) ts by (cases "ts' = []") simp_all
        moreover have "n_total V = n_total vars + int (sum_list (map snd ts))"
          using V(4) ts by simp
        ultimately show ?thesis
          using V(1) kd body ts by simp
      qed
    qed
  qed
qed

lemma r_ceiling_run:
  assumes "epoch_terms ee N fp g = Some (ts, g')"
  shows "r_ceiling fp ee N g =
           (if ts = [] then Inl ZeroDivisionError
            else Inr (Float (fdiv (weighted_sum ts) (Fin (real (total_samples ts)))), g'))"
proof -
  obtain V where V: "epoch_loop ee N fp (ceiling_init, g) = Inr (V, g')"
    "ts = [] \<longrightarrow> V = ceiling_init"
    "ts \<noteq> [] \<longrightarrow>
       rnorm_c V = Float (foldl fadd (to_f64 (rnorm_c ceiling_init)) (map (\<lambda>(q, c). fmul q (Fin (real c))) ts))"
    "n_total V = n_total ceiling_init + int (sum_list (map snd ts))"
    using epoch_loop_completes [OF assms, of ceiling_init] by blast
  show ?thesis
  proof (cases "ts = []")
    case True
    with V show ?thesis
      by (simp add: r_ceiling_def ceiling_init_def py_truediv_def)
  next
    case False
    with V show ?thesis
      by (simp add: r_ceiling_def ceiling_init_def py_truediv_def weighted_sum_def
          total_samples_def fsum_def)
  qed
qed

lemma r_ceiling_raises:
  assumes "epoch_terms ee N fp g = None"
  shows "\<exists>e. r_ceiling fp ee N g = Inl e \<and> e \<noteq> ZeroDivisionError"
  using epoch_loop_raises [OF assms, of ceiling_init]
  by (auto simp: r_ceiling_def)

lemma fadd_NaN_right [simp]: "fadd x NaN = NaN"
  by (cases x) simp_all

lemma foldl_fadd_NaN [simp]: "foldl fadd NaN xs = NaN"
  by (induction xs) simp_all

lemma fsum_NaN: "NaN \<in> set xs \<Longrightarrow> foldl fadd a xs = NaN"
  by (induction xs arbitrary: a) auto

lemma corr_masked_empty: "jointly a b = [] \<Longrightarrow> corr_masked a b = NaN"
  by (simp add: corr_masked_def pearson01_def np_cov_def dot_def centred_def cov_fact_def
      fsum_def clip1_def inf_of_def)

lemma jointly_empty:
  assumes "shape2 X = shape2 d" and "sample_count X d = 0"
  shows "jointly (chan0 X (shape0 X - 1)) (chan0 d 0) = []"
  using length_jointly_chan0 [OF assms(1), of "shape0 X - 1" 0] assms(2)
  by (simp add: sample_count_def)

lemma epoch_rs_no_sample:
  assumes "shape2 X = shape2 d" and "sample_count X d = 0" and "0 < shape0 X"
  shows "epoch_rs X d = NaN"
proof -
  have "corr_masked (chan0 X (shape0 X - 1)) (chan0 d 0) = NaN"
    by (rule corr_masked_empty) (rule jointly_empty [OF assms(1,2)])
  moreover have "shape0 X - 1 \<in> set [0..<shape0 X]"
    using assms(3) by simp
  ultimately have "NaN \<in> set (map (\<lambda>nn. corr_masked (chan0 X nn) (chan0 d 0)) [0..<shape0 X])"
    by (metis (mono_tags, lifting) image_eqI set_map)
  then show ?thesis
    by (simp add: epoch_rs_def np_mean_def fsum_def fsum_NaN)
qed

lemma epoch_terms_no_sample:
  assumes "epoch_terms ee N fp g = Some (ts, g')"
  shows "\<forall>(q, c) \<in> set ts. c = 0 \<longrightarrow> q = NaN"
  using assms
proof (induction fp arbitrary: g ts)
  case Nil
  then show ?case by simp
next
  case (Cons kd fp)
  obtain k d where kd: "kd = (k, d)" by (cases kd)
  show ?case
  proof (cases "count_finite3 d = 0")
    case True
    with Cons.prems kd have "epoch_terms ee N fp g = Some (ts, g')" by simp
    from Cons.IH [OF this] show ?thesis .
  next
    case False
    then have fin: "0 < count_finite3 d" by simp
    show ?thesis
    proof (cases "r_single (ee k) N g")
      case (Inl e)
      with Cons.prems kd fin show ?thesis by simp
    next
      case (Inr p)
      obtain rac g1 where p: "p = (rac, g1)" by (cases p)
      note rs = Inr [unfolded p]
      show ?thesis
      proof (cases "gt_zero rac")
        case False
        with Cons.prems kd fin rs have "epoch_terms ee N fp g1 = Some (ts, g')" by simp
        from Cons.IH [OF this] show ?thesis .
      next
        case True
        from Cons.prems kd fin rs True have same: "shape2 (ee k) = shape2 d"
          by (simp split: if_splits)
        let ?t = "(fdiv (epoch_rs (ee k) d) (fsqrt (to_f64 rac)), sample_count (ee k) d)"
        from Cons.prems kd fin rs True same obtain ts' where
          ts': "epoch_terms ee N fp g1 = Some (ts', g')" and ts: "ts = ?t # ts'"
          by (auto split: option.splits)
        from r_single_positive [OF rs True] have X: "0 < shape0 (ee k)" by simp
        have "sample_count (ee k) d = 0 \<longrightarrow> fst ?t = NaN"
          using epoch_rs_no_sample [OF same _ X] by simp
        with Cons.IH [OF ts'] ts show ?thesis by simp
      qed
    qed
  qed
qed

lemma weighted_sum_no_sample:
  assumes "\<forall>(q, c) \<in> set ts. c = 0 \<longrightarrow> q = NaN" and "total_samples ts = 0" and "ts \<noteq> []"
  shows "weighted_sum ts = NaN"
proof -
  obtain q c where qc: "(q, c) \<in> set ts"
    using assms(3) by (cases ts) auto
  with assms(2) have "c = 0"
    by (auto simp: total_samples_def)
  with assms(1) qc have "q = NaN" by auto
  with qc have "NaN \<in> set (map (\<lambda>(q, c). fmul q (Fin (real c))) ts)"
    by force
  then show ?thesis
    by (simp add: weighted_sum_def fsum_def fsum_NaN)
qed

lemma epoch_body_cong:
  assumes "(0 < count_finite3 d) = (0 < count_finite3 d')" and "chan0 d 0 = chan0 d' 0"
  shows "epoch_body extract_epoch N (k, d) s = epoch_body extract_epoch N (k, d') s"
proof (cases "0 < count_finite3 d")
  case True
  with assms(1) have "0 < count_finite3 d'" by simp
  from count_finite3_pos [OF True] count_finite3_pos [OF this] assms(2)
  have "row3 d 0 0 = row3 d' 0 0"
    by (simp add: row3_chan0)
  then have eq: "repeat_loop X d nns t = repeat_loop X d' nns t" for X nns t
    by (rule repeat_loop_cong)
  show ?thesis
    by (cases s) (simp only: epoch_body_def prod.case eq assms(1))
next
  case False
  with assms(1) show ?thesis
    by (simp add: epoch_body_def split_beta)
qed

lemma repeat_loop_epoch:
  assumes fin: "0 < count_finite3 d"
    and rac: "r_single X N g = Inr (rac, g')" and pos: "gt_zero rac"
    and len: "shape2 X = shape2 d"
  shows "repeat_loop X d [0..<shape0 X] ([], v) =
      Inr (map (\<lambda>nn. corr_masked (chan0 X nn) (chan0 d 0)) [0..<shape0 X],
           Some (last_valid X d))"
proof -
  from r_single_positive [OF rac pos] have X: "0 < shape1 X" "0 < shape0 X" by simp_all
  from count_finite3_pos [OF fin] have d: "0 < shape0 d" "0 < shape1 d" by simp_all
  show ?thesis
    using repeat_loop_run [OF X(1) d len, of "[0..<shape0 X]" "[]" v] X(2)
    by (simp add: last_valid_def)
qed

lemma count_pred_back: "count_finite3 pred_back = 3"
  by (simp add: count_finite3_def flat3_def pred_back_def upt_rec)

lemma chan0_pred_back: "chan0 pred_back 0 = [Fin 0, NaN, Fin 3, Fin 2]"
  by (simp add: chan0_def pred_back_def upt_rec)

lemma centred_pair: "centred [Fin (x + 2), Fin (x + 3)] = [Fin (- (1 / 2)), Fin (1 / 2)]"
proof -
  have "np_mean [Fin (x + 2), Fin (x + 3)] = Fin (x + 5 / 2)"
    by (simp add: np_mean_def fsum_def field_simps)
  then show ?thesis
    by (simp add: centred_def fsub_def)
qed

lemma centred_32: "centred [Fin 3, Fin 2] = [Fin (1 / 2), Fin (- (1 / 2))]"
  by (simp add: centred_def np_mean_def fsum_def fsub_def)

lemma corr_ramp_back: "corr_masked (chan0 ramp_raster i) (chan0 pred_back 0) = Fin (- 1)"
proof -
  let ?X = "[Fin (real i + 2), Fin (real i + 3)]" and ?d = "[Fin 3, Fin 2]"
  have xy: "np_cov ?X ?d = Fin (- (1 / 2))"
    by (simp add: np_cov_def centred_pair centred_32 dot_def fsum_def cov_fact_def)
  have xx: "np_cov ?X ?X = Fin (1 / 2)"
    by (simp add: np_cov_def centred_pair dot_def fsum_def cov_fact_def)
  have yy: "np_cov ?d ?d = Fin (1 / 2)"
    by (simp add: np_cov_def centred_32 dot_def fsum_def cov_fact_def)
  have "fdiv (fdiv (Fin (- (1 / 2))) (fsqrt (Fin (1 / 2)))) (fsqrt (Fin (1 / 2))) = Fin (- 1)"
    by (subst sqrt_twice) simp_all
  then have "pearson01 ?X ?d = Fin (- 1)"
    unfolding pearson01_def xy xx yy by (simp only: clip1_def flt.simps) simp
  then show ?thesis
    by (simp add: chan0_ramp chan0_pred_back corr_masked_def jointly_def)
qed

lemma epoch_rs_back: "epoch_rs ramp_raster pred_back = Fin (- 1)"
  by (simp add: epoch_rs_def corr_ramp_back ramp_shape upt_rec np_mean_def fsum_def)

lemma sample_count_back: "sample_count ramp_raster pred_back = 2"
  by (simp add: sample_count_def ramp_raster_def pred_back_def upt_rec)

lemma epoch_terms_two:
  "epoch_terms (\<lambda>k. ramp_raster) 100 [(''STIM_a'', pred_ramp), (''STIM_b'', pred_back)] counter_rng
     = Some ([(Fin 1, 3), (Fin (- 1), 2)], advance 6 counter_rng)"
  by (simp add: count_pred_ramp count_pred_back r_single_ramp gt_zero_def epoch_rs_ramp
      epoch_rs_back sample_count_ramp sample_count_back advance_advance)
     (simp add: ramp_raster_def pred_ramp_def pred_back_def)

lemma epoch_terms_one_repeat:
  "epoch_terms (\<lambda>k. one_repeat_raster) 100 [(''STIM_a'', pred_ramp)] counter_rng
     = Some ([], counter_rng)"
  by (simp add: count_pred_ramp r_single_few_repeats one_repeat_raster_def gt_zero_def)

lemma epoch_terms_first_only:
  "epoch_terms (\<lambda>k. ramp_raster) 100 [(''STIM_a'', pred_first_only)] counter_rng
     = Some ([(NaN, 0)], advance 3 counter_rng)"
  by (simp add: count_pred_first_only r_single_ramp gt_zero_def epoch_rs_first_only
      sample_count_first_only)
     (simp add: ramp_raster_def pred_first_only_def)

lemma sample_count_twice: "sample_count ramp_raster pred_twice = 3"
  by (simp add: sample_count_def ramp_raster_def pred_twice_def upt_rec)

lemma last_valid_twice: "last_valid ramp_raster pred_twice = [Fin 3, Fin 4, Fin 5]"
  by (simp add: last_valid_def chan0_ramp chan0_pred_twice jointly_def ramp_shape)

lemma chan0_pred_twice_1: "chan0 pred_twice 1 = [Fin 7, Fin 7, Fin 7, Fin 7]"
  by (simp add: chan0_def pred_twice_def upt_rec)

subsection \<open>The claims on \<^verbatim>\<open>r_ceiling\<close>\<close>

text \<open>
  Claim C1. Over the whole run, every epoch whose folded prediction holds a finite sample
  and whose raster has a reliability \<open>rac > 0\<close> adds \<open>(rs / sqrt rac) * sample_count\<close>
  to the weighted sum and \<open>sample_count\<close> to the sample total, where \<open>rs\<close> is the
  mean over the repeats of the correlation with the prediction and \<open>sample_count\<close> is
  the number of time samples at which the last repeat and the prediction are both finite;
  the other epochs add nothing. When \<open>ts\<close> lists the contributions of the run in the
  order of the epochs and is not empty, \<^verbatim>\<open>r_ceiling\<close> returns the weighted sum of
  \<open>ts\<close> divided by the total of its sample counts, with the random source as the run
  leaves it.
\<close>

theorem r_ceiling_weighted_mean:
  assumes "epoch_terms ee N fp g = Some (ts, g')" and "ts \<noteq> []"
  shows "r_ceiling fp ee N g =
           Inr (Float (fdiv (weighted_sum ts) (Fin (real (total_samples ts)))), g')"
  using r_ceiling_run [OF assms(1)] assms(2) by simp

text \<open>
  The theorem at a run of two epochs over the ramp raster: the ramp prediction, which
  every repeat follows at correlation 1 on three samples, and the falling prediction,
  which every repeat follows at correlation \<open>-1\<close> on two samples; both reliabilities
  are 1. The weighted sum is \<open>1 * 3 + (-1) * 2 = 1\<close>, the total is 5 and the result
  is \<open>1 / 5\<close>.
\<close>

theorem r_ceiling_weighted_mean_witness:
  "epoch_terms (\<lambda>k. ramp_raster) 100 [(''STIM_a'', pred_ramp), (''STIM_b'', pred_back)] counter_rng
     = Some ([(Fin 1, 3), (Fin (- 1), 2)], advance 6 counter_rng) \<and>
   weighted_sum [(Fin 1, 3), (Fin (- 1), 2)] = Fin 1 \<and>
   total_samples [(Fin 1, 3), (Fin (- 1), 2)] = 5 \<and>
   r_ceiling [(''STIM_a'', pred_ramp), (''STIM_b'', pred_back)] (\<lambda>k. ramp_raster) 100 counter_rng
     = Inr (Float (Fin (1 / 5)), advance 6 counter_rng)"
proof -
  have w: "weighted_sum [(Fin 1, 3), (Fin (- 1), 2)] = Fin 1"
    by (simp add: weighted_sum_def fsum_def)
  have t: "total_samples [(Fin 1, 3), (Fin (- 1), 2)] = 5"
    by (simp add: total_samples_def)
  have "r_ceiling [(''STIM_a'', pred_ramp), (''STIM_b'', pred_back)] (\<lambda>k. ramp_raster) 100
          counter_rng = Inr (Float (Fin (1 / 5)), advance 6 counter_rng)"
    using r_ceiling_weighted_mean [OF epoch_terms_two] by (simp add: w t)
  with epoch_terms_two w t show ?thesis by (intro conjI)
qed

text \<open>
  Claim C7, as amended. \<^verbatim>\<open>r_ceiling\<close> raises ZeroDivisionError exactly when the
  loop over the epochs ends without an error and no epoch of the run has passed both
  guards (a finite sample in its folded prediction, and a reliability \<open>> 0\<close> from the
  random source as the run has left it), so that both accumulators are still the
  integer 0. Whenever the loop ends without an error, some epoch has passed both guards
  and the sample total is still 0, the result is the float64 NaN and nothing is raised.
  Here \<open>epoch_terms\<close> is \<open>Some ([], g')\<close> exactly when no \<^verbatim>\<open>_r_single\<close> has
  raised and every epoch was passed over at one of the two guards.
\<close>

theorem r_ceiling_zero_division:
  "(r_ceiling fp ee N g = Inl ZeroDivisionError
      \<longleftrightarrow> (\<exists>g'. epoch_terms ee N fp g = Some ([], g')))
   \<and> (\<forall>ts g'. epoch_terms ee N fp g = Some (ts, g') \<and> ts \<noteq> [] \<and> total_samples ts = 0
         \<longrightarrow> r_ceiling fp ee N g = Inr (Float NaN, g'))"
proof (intro conjI allI impI)
  show "r_ceiling fp ee N g = Inl ZeroDivisionError
      \<longleftrightarrow> (\<exists>g'. epoch_terms ee N fp g = Some ([], g'))"
  proof (cases "epoch_terms ee N fp g")
    case None
    with r_ceiling_raises [OF None] show ?thesis by auto
  next
    case (Some p)
    obtain ts g' where p: "p = (ts, g')" by (cases p)
    from r_ceiling_run [OF Some [unfolded p]] Some p show ?thesis
      by (cases "ts = []") simp_all
  qed
next
  fix ts g'
  assume a: "epoch_terms ee N fp g = Some (ts, g') \<and> ts \<noteq> [] \<and> total_samples ts = 0"
  then have "weighted_sum ts = NaN"
    using weighted_sum_no_sample [OF epoch_terms_no_sample] by blast
  with r_ceiling_run [of ee N fp g ts g'] a show "r_ceiling fp ee N g = Inr (Float NaN, g')"
    by simp
qed

text \<open>
  The theorem at two runs of one epoch. With a raster of a single repeat the reliability
  is the integer 0, the epoch is passed over and the division raises. With the ramp
  raster and a prediction that is finite at the first sample only, the epoch contributes
  NaN with a sample count of 0 and the result is NaN.
\<close>

theorem r_ceiling_zero_division_witness:
  "0 < count_finite3 pred_ramp \<and>
   r_single one_repeat_raster 100 counter_rng = Inr (PyInt 0, counter_rng) \<and>
   epoch_terms (\<lambda>k. one_repeat_raster) 100 [(''STIM_a'', pred_ramp)] counter_rng
     = Some ([], counter_rng) \<and>
   r_ceiling [(''STIM_a'', pred_ramp)] (\<lambda>k. one_repeat_raster) 100 counter_rng
     = Inl ZeroDivisionError \<and>
   epoch_terms (\<lambda>k. ramp_raster) 100 [(''STIM_a'', pred_first_only)] counter_rng
     = Some ([(NaN, 0)], advance 3 counter_rng) \<and>
   total_samples [(NaN, 0)] = 0 \<and>
   r_ceiling [(''STIM_a'', pred_first_only)] (\<lambda>k. ramp_raster) 100 counter_rng
     = Inr (Float NaN, advance 3 counter_rng) \<and>
   r_ceiling [(''STIM_a'', pred_first_only)] (\<lambda>k. ramp_raster) 100 counter_rng
     \<noteq> Inl ZeroDivisionError"
proof -
  note a = r_ceiling_zero_division [of "[(''STIM_a'', pred_ramp)]" "\<lambda>k. one_repeat_raster" 100
      counter_rng]
  note b = r_ceiling_zero_division [of "[(''STIM_a'', pred_first_only)]" "\<lambda>k. ramp_raster" 100
      counter_rng]
  have t: "total_samples [(NaN, 0)] = 0"
    by (simp add: total_samples_def)
  have 1: "r_ceiling [(''STIM_a'', pred_ramp)] (\<lambda>k. one_repeat_raster) 100 counter_rng
     = Inl ZeroDivisionError"
    using a by (simp only: epoch_terms_one_repeat) simp
  have 2: "r_ceiling [(''STIM_a'', pred_first_only)] (\<lambda>k. ramp_raster) 100 counter_rng
     = Inr (Float NaN, advance 3 counter_rng)"
    using b t by (simp only: epoch_terms_first_only) simp
  have 3: "r_ceiling [(''STIM_a'', pred_first_only)] (\<lambda>k. ramp_raster) 100 counter_rng
     \<noteq> Inl ZeroDivisionError"
    using b by (simp only: epoch_terms_first_only) simp
  have 4: "0 < count_finite3 pred_ramp"
    by (simp add: count_pred_ramp)
  have 5: "r_single one_repeat_raster 100 counter_rng = Inr (PyInt 0, counter_rng)"
    by (simp add: r_single_few_repeats one_repeat_raster_def)
  from 1 2 3 4 5 t epoch_terms_one_repeat epoch_terms_first_only show ?thesis
    by (intro conjI)
qed

text \<open>
  Claim C7 as stated fails: an epoch can pass both guards and still add no sample.
  With the ramp raster (missing at the first sample) and a prediction that is finite at the
  first sample only, the sample total stays 0, the weighted sum is the float64 NaN, and
  the division returns NaN without raising.
\<close>

theorem r_ceiling_no_samples:
  "epoch_loop (\<lambda>k. ramp_raster) 100 [(''STIM_a'', pred_first_only)] (ceiling_init, counter_rng) =
     Inr (\<lparr>rnorm_c = Float NaN, n_total = 0, X1_var = Some []\<rparr>, advance 3 counter_rng) \<and>
   r_ceiling [(''STIM_a'', pred_first_only)] (\<lambda>k. ramp_raster) 100 counter_rng =
     Inr (Float NaN, advance 3 counter_rng)"
proof -
  have "epoch_body (\<lambda>k. ramp_raster) 100 (''STIM_a'', pred_first_only) (ceiling_init, counter_rng) =
     Inr (\<lparr>rnorm_c = Float NaN, n_total = 0, X1_var = Some []\<rparr>, advance 3 counter_rng)"
    using epoch_body_contributes [where d = pred_first_only and extract_epoch = "\<lambda>k. ramp_raster"
      and k = "''STIM_a''" and N = 100 and g = counter_rng and rac = "Float (Fin 1)"
      and g' = "advance 3 counter_rng" and vars = ceiling_init]
    by (simp add: count_pred_first_only r_single_ramp gt_zero_def epoch_rs_first_only
        sample_count_first_only last_valid_first_only ceiling_init_def)
       (simp add: pred_first_only_def)
  then show ?thesis
    by (simp add: r_ceiling_def py_truediv_def)
qed

text \<open>
  Claim C10. For an epoch that passes both guards, the inner loop correlates every
  repeat \<open>nn\<close> of the raster with the first occurrence \<^verbatim>\<open>d[0, 0, :]\<close> of the folded
  prediction (on their jointly finite samples): it returns the list of these correlations,
  one for each repeat in order, and the pass of the outer loop adds their mean over
  \<open>sqrt rac\<close>, times the sample count, to the weighted sum. The other occurrences
  are not read: two folded predictions that agree on the guard and on their first
  occurrence give the same pass, whatever their other occurrences hold.
\<close>

theorem r_ceiling_first_occurrence:
  "(0 < count_finite3 d \<and> r_single (ee k) N g = Inr (rac, g') \<and> gt_zero rac
      \<and> shape2 (ee k) = shape2 d \<longrightarrow>
      repeat_loop (ee k) d [0..<shape0 (ee k)] ([], v) =
        Inr (map (\<lambda>nn. corr_masked (chan0 (ee k) nn) (chan0 d 0)) [0..<shape0 (ee k)],
             Some (last_valid (ee k) d))
      \<and> epoch_body ee N (k, d) (vars, g) =
        Inr (\<lparr>rnorm_c = Float (fadd (to_f64 (rnorm_c vars))
                (fmul (fdiv (np_mean (map (\<lambda>nn. corr_masked (chan0 (ee k) nn) (chan0 d 0))
                                       [0..<shape0 (ee k)]))
                            (fsqrt (to_f64 rac)))
                      (Fin (real (sample_count (ee k) d))))),
              n_total = n_total vars + int (sample_count (ee k) d),
              X1_var = Some (last_valid (ee k) d)\<rparr>, g'))
   \<and> ((0 < count_finite3 d) = (0 < count_finite3 d') \<and> chan0 d 0 = chan0 d' 0 \<longrightarrow>
        epoch_body ee N (k, d) s = epoch_body ee N (k, d') s)"
proof (intro conjI impI)
  assume a: "0 < count_finite3 d \<and> r_single (ee k) N g = Inr (rac, g') \<and> gt_zero rac
      \<and> shape2 (ee k) = shape2 d"
  then show "repeat_loop (ee k) d [0..<shape0 (ee k)] ([], v) =
        Inr (map (\<lambda>nn. corr_masked (chan0 (ee k) nn) (chan0 d 0)) [0..<shape0 (ee k)],
             Some (last_valid (ee k) d))"
    using repeat_loop_epoch [of d "ee k" N g rac g' v] by simp
  from a show "epoch_body ee N (k, d) (vars, g) =
        Inr (\<lparr>rnorm_c = Float (fadd (to_f64 (rnorm_c vars))
                (fmul (fdiv (np_mean (map (\<lambda>nn. corr_masked (chan0 (ee k) nn) (chan0 d 0))
                                       [0..<shape0 (ee k)]))
                            (fsqrt (to_f64 rac)))
                      (Fin (real (sample_count (ee k) d))))),
              n_total = n_total vars + int (sample_count (ee k) d),
              X1_var = Some (last_valid (ee k) d)\<rparr>, g')"
    using epoch_body_contributes [where extract_epoch = ee and k = k and d = d and N = N
        and g = g and rac = rac and g' = g' and vars = vars]
    by (simp add: epoch_rs_def)
next
  assume "(0 < count_finite3 d) = (0 < count_finite3 d') \<and> chan0 d 0 = chan0 d' 0"
  then show "epoch_body ee N (k, d) s = epoch_body ee N (k, d') s"
    using epoch_body_cong [of d d' ee N k s] by simp
qed

text \<open>
  The theorem at the ramp raster and a folded prediction of two occurrences, the first
  the ramp and the second constant. Every repeat has correlation 1 with the first
  occurrence (with the constant second occurrence it would be NaN), and the pass is that
  of the ramp prediction alone.
\<close>

theorem r_ceiling_first_occurrence_witness:
  "0 < count_finite3 pred_twice \<and> 0 < count_finite3 pred_ramp \<and>
   r_single ramp_raster 100 counter_rng = Inr (Float (Fin 1), advance 3 counter_rng) \<and>
   gt_zero (Float (Fin 1)) \<and> shape2 ramp_raster = shape2 pred_twice \<and>
   shape0 pred_twice = 2 \<and> shape0 pred_ramp = 1 \<and>
   chan0 pred_twice 0 = [Fin 0, Fin 1, Fin 2, Fin 3] \<and>
   chan0 pred_twice 1 = [Fin 7, Fin 7, Fin 7, Fin 7] \<and>
   chan0 pred_ramp 0 = [Fin 0, Fin 1, Fin 2, Fin 3] \<and>
   repeat_loop ramp_raster pred_twice [0..<3] ([], None) =
     Inr ([Fin 1, Fin 1, Fin 1], Some [Fin 3, Fin 4, Fin 5]) \<and>
   epoch_body (\<lambda>k. ramp_raster) 100 (''STIM_a'', pred_twice) (ceiling_init, counter_rng) =
     Inr (\<lparr>rnorm_c = Float (Fin 3), n_total = 3, X1_var = Some [Fin 3, Fin 4, Fin 5]\<rparr>,
          advance 3 counter_rng) \<and>
   epoch_body (\<lambda>k. ramp_raster) 100 (''STIM_a'', pred_ramp) (ceiling_init, counter_rng) =
     Inr (\<lparr>rnorm_c = Float (Fin 3), n_total = 3, X1_var = Some [Fin 3, Fin 4, Fin 5]\<rparr>,
          advance 3 counter_rng)"
proof -
  have h1: "0 < count_finite3 pred_twice" "0 < count_finite3 pred_ramp"
    by (simp_all add: count_pred_twice count_pred_ramp)
  have h2: "r_single ramp_raster 100 counter_rng = Inr (Float (Fin 1), advance 3 counter_rng)"
    by (simp add: r_single_ramp)
  have h3: "gt_zero (Float (Fin 1))" by (simp add: gt_zero_def)
  have h4: "shape2 ramp_raster = shape2 pred_twice" "shape0 pred_twice = 2" "shape0 pred_ramp = 1"
    by (simp_all add: pred_twice_def pred_ramp_def ramp_raster_def)
  have h5: "chan0 pred_twice 0 = chan0 pred_ramp 0"
    by (simp add: chan0_pred_twice chan0_pred_ramp)
  have corr: "corr_masked (chan0 ramp_raster i) (chan0 pred_twice 0) = Fin 1" for i
    by (simp add: h5 corr_ramp_pred)
  note inst = r_ceiling_first_occurrence [where d = pred_twice and d' = pred_ramp
      and ee = "\<lambda>k. ramp_raster" and k = "''STIM_a''" and N = 100 and g = counter_rng
      and rac = "Float (Fin 1)" and g' = "advance 3 counter_rng" and vars = ceiling_init
      and v = None and s = "(ceiling_init, counter_rng)"]
  have s0: "shape0 ramp_raster = 3"
    by (simp add: ramp_raster_def)
  have m: "map (\<lambda>nn. corr_masked (chan0 ramp_raster nn) (chan0 pred_twice 0)) [0..<3]
             = [Fin 1, Fin 1, Fin 1]"
    by (simp add: corr upt_rec)
  have v: "fadd (to_f64 (rnorm_c ceiling_init))
             (fmul (fdiv (np_mean [Fin 1, Fin 1, Fin 1]) (fsqrt (to_f64 (Float (Fin 1)))))
                (Fin (real 3))) = Fin 3"
    "n_total ceiling_init + int 3 = 3"
    by (simp_all add: np_mean_def fsum_def ceiling_init_def)
  have both:
    "repeat_loop ramp_raster pred_twice [0..<shape0 ramp_raster] ([], None) =
        Inr (map (\<lambda>nn. corr_masked (chan0 ramp_raster nn) (chan0 pred_twice 0))
               [0..<shape0 ramp_raster],
             Some (last_valid ramp_raster pred_twice))
      \<and> epoch_body (\<lambda>k. ramp_raster) 100 (''STIM_a'', pred_twice) (ceiling_init, counter_rng) =
        Inr (\<lparr>rnorm_c = Float (fadd (to_f64 (rnorm_c ceiling_init))
                (fmul (fdiv (np_mean (map (\<lambda>nn. corr_masked (chan0 ramp_raster nn)
                                                  (chan0 pred_twice 0))
                                       [0..<shape0 ramp_raster]))
                            (fsqrt (to_f64 (Float (Fin 1)))))
                      (Fin (real (sample_count ramp_raster pred_twice))))),
              n_total = n_total ceiling_init + int (sample_count ramp_raster pred_twice),
              X1_var = Some (last_valid ramp_raster pred_twice)\<rparr>, advance 3 counter_rng)"
    using inst h1(1) h2 h3 h4(1) by blast
  have loop: "repeat_loop ramp_raster pred_twice [0..<3] ([], None) =
     Inr ([Fin 1, Fin 1, Fin 1], Some [Fin 3, Fin 4, Fin 5])"
    using both [THEN conjunct1] unfolding s0 m last_valid_twice .
  have body: "epoch_body (\<lambda>k. ramp_raster) 100 (''STIM_a'', pred_twice) (ceiling_init, counter_rng) =
     Inr (\<lparr>rnorm_c = Float (Fin 3), n_total = 3, X1_var = Some [Fin 3, Fin 4, Fin 5]\<rparr>,
          advance 3 counter_rng)"
    using both [THEN conjunct2] unfolding s0 m last_valid_twice sample_count_twice v .
  have same: "epoch_body (\<lambda>k. ramp_raster) 100 (''STIM_a'', pred_twice) (ceiling_init, counter_rng) =
     epoch_body (\<lambda>k. ramp_raster) 100 (''STIM_a'', pred_ramp) (ceiling_init, counter_rng)"
    using inst h1 h5 by blast
  from h1 h2 h3 h4 chan0_pred_twice chan0_pred_twice_1 chan0_pred_ramp loop body
    body [unfolded same]
  show ?thesis
    by (intro conjI)
qed

end
